theory Spec2Isabelle
  imports Main "HOL-Library.Word" "HOL-Library.Signed_Division" "HOL-Library.Monad_Syntax"
begin

unbundle bit_operations_syntax

section \<open>Bus opcodes (tagline\_driver.c, raid\_cache.c)\<close>

text \<open>
  The header \<^verbatim>\<open>raid_bus.h\<close> is not part of the sources. The struct comments
  (\<^verbatim>\<open>RAIDDiskID disk_number; // 8 bits\<close>), the encoder's shifts and the 64-bit
  opcode fix the widths used here: a disk identifier is 8 bits, a block identifier
  32 bits, an opcode 64 bits.
\<close>

type_synonym RAIDDiskID = "8 word"
type_synonym RAIDBlockID = "32 word"
type_synonym RAIDOpCode = "64 word"

text \<open>The struct \<^verbatim>\<open>RAID_REQUEST\<close>, \<^verbatim>\<open>RAID_RESPONSE\<close> with its C field types.\<close>

record RAID_REQUEST =
  request_type :: "8 word"
  number_of_blocks :: "8 word"
  disk_number :: RAIDDiskID
  reserved :: "8 word"
  status :: "8 word"
  blockid :: RAIDBlockID

text \<open>
  \<^verbatim>\<open>generate_RAIDOpCode\<close> (and its copy \<^verbatim>\<open>generate_RAIDOpCode_c\<close> in the cache):
  shift and add on a 64-bit unsigned integer, each field widened from its C type.
\<close>

definition generate_RAIDOpCode :: "RAID_REQUEST \<Rightarrow> RAIDOpCode" where
  "generate_RAIDOpCode opcode =
     (let g = ucast (request_type opcode);
          g = push_bit 8 g;
          g = g + ucast (number_of_blocks opcode);
          g = push_bit 8 g;
          g = g + ucast (disk_number opcode);
          g = push_bit 7 g;
          g = g + ucast (reserved opcode);
          g = push_bit 1 g;
          g = g + ucast (status opcode);
          g = push_bit 32 g;
          g = g + ucast (blockid opcode)
      in g)"

text \<open>
  \<^verbatim>\<open>decode_RAIDOpCode\<close> (and \<^verbatim>\<open>decode_RAIDOpCode_c\<close>): masks and right shifts; the
  reserved field is masked with \<^verbatim>\<open>0x3F\<close> and then seven bits are shifted out; the
  request type is the remaining value truncated to \<^verbatim>\<open>uint8_t\<close>.
\<close>

definition decode_RAIDOpCode :: "RAIDOpCode \<Rightarrow> RAID_REQUEST" where
  "decode_RAIDOpCode opcode =
     (let r_blockid = ucast (opcode AND 0x00000000FFFFFFFF);
          opcode = drop_bit 32 opcode;
          r_status = ucast (opcode AND 0x0000000000000001);
          opcode = drop_bit 1 opcode;
          r_reserved = ucast (opcode AND 0x000000000000003F);
          opcode = drop_bit 7 opcode;
          r_disk = ucast (opcode AND 0x00000000000000FF);
          opcode = drop_bit 8 opcode;
          r_blocks = ucast (opcode AND 0x00000000000000FF);
          opcode = drop_bit 8 opcode
      in \<lparr> request_type = ucast opcode, number_of_blocks = r_blocks,
           disk_number = r_disk, reserved = r_reserved, status = r_status,
           blockid = r_blockid \<rparr>)"

text \<open>\<^verbatim>\<open>check_response\<close>: the checks in the order of the source.\<close>

definition check_response :: "RAID_REQUEST \<Rightarrow> RAID_REQUEST \<Rightarrow> int" where
  "check_response request response =
     (if request_type request \<noteq> request_type response then -1
      else if number_of_blocks request \<noteq> number_of_blocks response then -1
      else if disk_number request \<noteq> disk_number response then -1
      else if status response \<noteq> 0 then -1
      else if blockid request \<noteq> blockid response then -1
      else 0)"

section \<open>The environment: the RAID server and the missing headers\<close>

text \<open>
  A block buffer of \<^verbatim>\<open>RAID_BLOCK_SIZE\<close> bytes is a value of type \<open>block_data\<close>; every
  \<^verbatim>\<open>memcpy\<close> of the sources copies exactly one such buffer.
\<close>

type_synonym block_data = "8 word list"

text \<open>
  \<^verbatim>\<open>client_raid_bus_request\<close> (raid\_client.c) sends the opcode and the buffer over a
  socket and returns what the server answers. The server is not part of the sources, so
  it is a parameter: \<open>bus_request\<close> maps the server's state, the opcode and the
  content of the buffer passed (\<open>None\<close> for a \<^verbatim>\<open>NULL\<close> pointer) to the new
  state, the response opcode (all ones when the client gives up and returns \<^verbatim>\<open>-1\<close>)
  and the payload received (\<open>None\<close> when the server sends none and the buffer is left
  as it was). The constants of the missing headers \<^verbatim>\<open>raid_bus.h\<close> and
  \<^verbatim>\<open>raid_cache.h\<close> are parameters too.

  Memory that \<^verbatim>\<open>malloc\<close> returns holds indeterminate bytes, and the code reads two
  such objects before it assigns them; what they hold is a parameter as well:
  \<open>uninit_backup tag bnum\<close> is the content of the fields \<^verbatim>\<open>backup_disk\<close> and
  \<^verbatim>\<open>backup_block\<close> of the block node that \<^verbatim>\<open>tagline_write\<close> allocates for block
  \<open>bnum\<close> of tagline \<open>tag\<close>, and \<open>uninit_buffer\<close> the content of the buffer
  \<^verbatim>\<open>buf_read\<close> that \<^verbatim>\<open>raid_disk_signal\<close> allocates.
\<close>

record 'b env =
  bus_request :: "'b \<Rightarrow> RAIDOpCode \<Rightarrow> block_data option \<Rightarrow> 'b \<times> RAIDOpCode \<times> block_data option"
  TAGLINE_CACHE_SIZE :: int
  RAID_TRACK_BLOCKS :: nat
  RAID_INIT :: "8 word"
  RAID_FORMAT :: "8 word"
  RAID_READ :: "8 word"
  RAID_WRITE :: "8 word"
  RAID_CLOSE :: "8 word"
  RAID_STATUS :: "8 word"
  uninit_backup :: "16 word \<Rightarrow> 32 word \<Rightarrow> RAIDDiskID \<times> RAIDBlockID"
  uninit_buffer :: block_data

section \<open>Program state\<close>

text \<open>
  Queue nodes live in a heap (a map from addresses to nodes): the queue is doubly linked
  and the cache rewires it through aliases. \<open>None\<close> is the \<^verbatim>\<open>NULL\<close> pointer; an
  address outside the heap's domain is a freed node. A hash bucket's chain is only ever
  appended to, so it is a list, and a pointer to a hash node is the pair of its bucket
  and its position in the chain.
\<close>

record QUEUE_NODE =
  value_buf :: block_data
  age_bit :: int
  next_node :: "nat option"
  prev_node :: "nat option"
  parent_hash_node :: "(nat \<times> nat) option"

record HASH_NODE =
  hdisk :: RAIDDiskID
  hblock :: RAIDBlockID
  cache_block_ptr :: "nat option"

text \<open>
  A block node of a tagline. \<^verbatim>\<open>tagline_write\<close> links the node into its tagline before
  the backup fields are assigned; until then they hold what \<^verbatim>\<open>malloc\<close> left there.
\<close>

record BLOCK =
  block :: "32 word"
  RAID_disk :: RAIDDiskID
  RAID_block :: RAIDBlockID
  backup_disk :: RAIDDiskID
  backup_block :: RAIDBlockID

record TAGLINE =
  tagline :: "16 word"
  max_start_allowed :: "32 word"
  blocks_in_tagline :: "64 word"
  block_0 :: "BLOCK list"

text \<open>
  The static variables of raid\_cache.c and tagline\_driver.c, the server's state and two
  histories, ghost fields on which no variable of the program depends: \<open>bus_log\<close>, each
  opcode sent with the response received, and \<open>put_log\<close>, each call of \<^verbatim>\<open>put_raid_cache\<close> with the number of
  bus requests made before it, its disk, its block and the content of its buffer.
  \<open>containers\<close> says that the request and response containers that
  \<^verbatim>\<open>tagline_driver_init\<close> allocates exist (the pointers to them are \<^verbatim>\<open>NULL\<close>
  before).
\<close>

record 'b driver_state =
  capacity :: int
  back_ptr :: "nat option"
  front_ptr :: "nat option"
  hashtable :: "nat \<Rightarrow> HASH_NODE list"
  max_cache_size :: int
  total_cache_inserts :: int
  total_cache_gets :: int
  total_cache_hits :: int
  total_cache_misses :: int
  queue_nodes :: "nat \<Rightarrow> QUEUE_NODE option"
  next_alloc :: nat
  last_block_added :: "int list"
  head_tag :: "TAGLINE list"
  taglines_in_use :: "32 word"
  containers :: bool
  current_disk :: RAIDDiskID
  current_block :: RAIDBlockID
  bus :: 'b
  bus_log :: "(RAIDOpCode \<times> RAIDOpCode) list"
  put_log :: "(nat \<times> RAIDDiskID \<times> RAIDBlockID \<times> block_data) list"

definition RAID_DISKS :: nat where "RAID_DISKS = 9"
definition RAID_DISKBLOCKS :: nat where "RAID_DISKBLOCKS = 4096"
definition HASHTABLE_SIZE :: nat where "HASHTABLE_SIZE = 8192"

text \<open>The state of the process when it starts: the initialisers of the statics.\<close>

definition initial_state :: "'b \<Rightarrow> 'b driver_state" where
  "initial_state b =
     \<lparr> capacity = 0, back_ptr = None, front_ptr = None, hashtable = (\<lambda>_. []),
       max_cache_size = 0, total_cache_inserts = 0, total_cache_gets = 0,
       total_cache_hits = 0, total_cache_misses = 0, queue_nodes = (\<lambda>_. None),
       next_alloc = 0, last_block_added = replicate RAID_DISKS (-1), head_tag = [],
       taglines_in_use = 0, containers = False, current_disk = 0,
       current_block = 0, bus = b, bus_log = [], put_log = [] \<rparr>"

text \<open>
  A call of \<^verbatim>\<open>client_raid_bus_request\<close>: the response opcode, the payload received
  and the new state. \<open>received\<close> is the content of a buffer after the call.
\<close>

definition client_raid_bus_request ::
  "'b env \<Rightarrow> RAIDOpCode \<Rightarrow> block_data option \<Rightarrow> 'b driver_state
     \<Rightarrow> RAIDOpCode \<times> block_data option \<times> 'b driver_state" where
  "client_raid_bus_request E op buf s =
     (case bus_request E (bus s) op buf of
        (b', resp, payload) \<Rightarrow> (resp, payload, s\<lparr>bus := b', bus_log := bus_log s @ [(op, resp)]\<rparr>))"

definition received :: "block_data option \<Rightarrow> block_data \<Rightarrow> block_data" where
  "received payload buf = (case payload of None \<Rightarrow> buf | Some d \<Rightarrow> d)"

section \<open>The cache (raid\_cache.c)\<close>

text \<open>
  Every function that dereferences a pointer returns an option: \<open>None\<close> is the crash
  of the process (a \<^verbatim>\<open>NULL\<close> or freed pointer dereferenced, an array indexed out
  of range). A function of the source that returns
  \<^verbatim>\<open>int\<close> returns that integer with the new state.
\<close>

text \<open>
  \<^verbatim>\<open>hashfunction\<close>: \<^verbatim>\<open>temp = disk*10000; temp = temp + block\<close> in 32-bit
  arithmetic, read back as a signed \<^verbatim>\<open>int\<close>, then C's remainder, which takes the
  sign of \<^verbatim>\<open>temp\<close>.
\<close>

definition hashfunction :: "RAIDDiskID \<Rightarrow> RAIDBlockID \<Rightarrow> int" where
  "hashfunction dsk blk = sint ((ucast dsk * 10000 + blk) :: 32 word) smod int HASHTABLE_SIZE"

text \<open>The bucket \<^verbatim>\<open>hashtable[hash_value]\<close>; a negative index is out of range.\<close>

definition bucket_index :: "RAIDDiskID \<Rightarrow> RAIDBlockID \<Rightarrow> nat option" where
  "bucket_index dsk blk =
     (let hash_value = hashfunction dsk blk
      in if hash_value < 0 then None else Some (nat hash_value))"

text \<open>
  The loop over a bucket's chain that stops at the first node with the disk and block
  wanted: the position of that node, or \<open>None\<close> when the loop reaches \<^verbatim>\<open>NULL\<close>.
\<close>

fun find_hash_node :: "HASH_NODE list \<Rightarrow> RAIDDiskID \<Rightarrow> RAIDBlockID \<Rightarrow> nat option" where
  "find_hash_node [] dsk blk = None"
| "find_hash_node (n # ns) dsk blk =
     (if hdisk n = dsk \<and> hblock n = blk then Some 0
      else map_option Suc (find_hash_node ns dsk blk))"

text \<open>Reading and writing through a pointer to a hash node or to a queue node.\<close>

definition hash_node :: "'b driver_state \<Rightarrow> nat \<times> nat \<Rightarrow> HASH_NODE option" where
  "hash_node s h =
     (if snd h < length (hashtable s (fst h)) then Some (hashtable s (fst h) ! snd h) else None)"

definition set_hash_node ::
  "nat \<times> nat \<Rightarrow> (HASH_NODE \<Rightarrow> HASH_NODE) \<Rightarrow> 'b driver_state \<Rightarrow> 'b driver_state option" where
  "set_hash_node h f s =
     (if snd h < length (hashtable s (fst h))
      then Some (s\<lparr>hashtable := (hashtable s)
                  (fst h := (hashtable s (fst h))[snd h := f (hashtable s (fst h) ! snd h)])\<rparr>)
      else None)"

definition queue_node :: "'b driver_state \<Rightarrow> nat option \<Rightarrow> QUEUE_NODE option" where
  "queue_node s p = (case p of None \<Rightarrow> None | Some a \<Rightarrow> queue_nodes s a)"

definition set_queue_node ::
  "nat option \<Rightarrow> (QUEUE_NODE \<Rightarrow> QUEUE_NODE) \<Rightarrow> 'b driver_state \<Rightarrow> 'b driver_state option" where
  "set_queue_node p f s =
     (case p of
        None \<Rightarrow> None
      | Some a \<Rightarrow>
          (case queue_nodes s a of
             None \<Rightarrow> None
           | Some n \<Rightarrow> Some (s\<lparr>queue_nodes := (queue_nodes s)(a \<mapsto> f n)\<rparr>)))"

text \<open>
  \<^verbatim>\<open>malloc\<close> of a queue node with its block buffer: a fresh address. Allocation is
  taken to succeed; the cache does not test its result either.
\<close>

definition alloc_queue_node :: "QUEUE_NODE \<Rightarrow> 'b driver_state \<Rightarrow> nat \<times> 'b driver_state" where
  "alloc_queue_node n s =
     (next_alloc s,
      s\<lparr>queue_nodes := (queue_nodes s)(next_alloc s \<mapsto> n), next_alloc := Suc (next_alloc s)\<rparr>)"

text \<open>\<^verbatim>\<open>init_raid_cache\<close>. The hash table is not cleared.\<close>

definition init_raid_cache :: "int \<Rightarrow> 'b driver_state \<Rightarrow> int \<times> 'b driver_state" where
  "init_raid_cache max_items s =
     (0, s\<lparr>capacity := 0, back_ptr := None, front_ptr := None, max_cache_size := max_items\<rparr>)"

text \<open>
  \<^verbatim>\<open>evict_lru\<close>: writes the buffer of the node at the front of the queue to the bus,
  checks the status bit of the response only, then unlinks and frees the node.
\<close>

definition evict_lru :: "'b env \<Rightarrow> 'b driver_state \<Rightarrow> (int \<times> 'b driver_state) option" where
  "evict_lru E s =
     (case front_ptr s of
        None \<Rightarrow> Some (-1, s)
      | Some e \<Rightarrow> do {
          en \<leftarrow> queue_nodes s e;
          h \<leftarrow> parent_hash_node en;
          hn \<leftarrow> hash_node s h;
          let write = \<lparr> request_type = RAID_WRITE E, number_of_blocks = 1,
                        disk_number = hdisk hn, reserved = 0, status = 0,
                        blockid = hblock hn \<rparr>;
          case client_raid_bus_request E (generate_RAIDOpCode write) (Some (value_buf en)) s of
            (write_opcode_response, payload, s1) \<Rightarrow> do {
              s2 \<leftarrow> set_queue_node (Some e)
                      (\<lambda>n. n\<lparr>value_buf := received payload (value_buf n)\<rparr>) s1;
              if status (decode_RAIDOpCode write_opcode_response) \<noteq> 0 then Some (-1, s2)
              else do {
                let s3 = s2\<lparr>front_ptr := prev_node en\<rparr>;
                s4 \<leftarrow> set_queue_node (prev_node en) (\<lambda>n. n\<lparr>next_node := None\<rparr>) s3;
                s5 \<leftarrow> set_hash_node h (\<lambda>x. x\<lparr>cache_block_ptr := None\<rparr>) s4;
                Some (0, s5\<lparr>queue_nodes := (queue_nodes s5)(e := None),
                             capacity := capacity s5 - 1\<rparr>)
              }
            }
        })"

text \<open>
  \<^verbatim>\<open>insert_in_queue\<close>: links the node at the back, counts it, and evicts the front
  node when the count exceeds \<^verbatim>\<open>TAGLINE_CACHE_SIZE\<close>.
\<close>

definition insert_in_queue ::
  "'b env \<Rightarrow> nat \<Rightarrow> 'b driver_state \<Rightarrow> (int \<times> 'b driver_state) option" where
  "insert_in_queue E node s = do {
     s1 \<leftarrow> set_queue_node (Some node) (\<lambda>n. n\<lparr>next_node := back_ptr s, prev_node := None\<rparr>) s;
     s2 \<leftarrow> set_queue_node (back_ptr s1) (\<lambda>n. n\<lparr>prev_node := Some node\<rparr>) s1;
     let s3 = s2\<lparr>back_ptr := Some node, capacity := capacity s2 + 1\<rparr>;
     if capacity s3 > TAGLINE_CACHE_SIZE E then do {
       (rc, s4) \<leftarrow> evict_lru E s3;
       if rc \<noteq> 0 then Some (-1, s4) else Some (0, s4)
     } else Some (0, s3)
   }"

text \<open>
  \<^verbatim>\<open>update_block_in_queue\<close>: the four cases on the node's own links, each a sequence
  of pointer assignments in the order of the source. The third case works on
  \<^verbatim>\<open>cache_queue.front_ptr\<close> and \<^verbatim>\<open>cache_queue.back_ptr\<close>, not on the node.
\<close>

definition update_block_in_queue ::
  "nat \<Rightarrow> 'b driver_state \<Rightarrow> (int \<times> 'b driver_state) option" where
  "update_block_in_queue node s = do {
     n \<leftarrow> queue_nodes s node;
     if prev_node n = None \<and> next_node n = None then do {
       s1 \<leftarrow> set_queue_node (back_ptr s) (\<lambda>x. x\<lparr>prev_node := Some node\<rparr>) s;
       s2 \<leftarrow> set_queue_node (Some node) (\<lambda>x. x\<lparr>next_node := back_ptr s1, prev_node := None\<rparr>) s1;
       Some (0, s2\<lparr>back_ptr := Some node\<rparr>)
     } else if prev_node n = None \<and> next_node n \<noteq> None then Some (0, s)
     else if prev_node n \<noteq> None \<and> next_node n = None then do {
       s1 \<leftarrow> set_queue_node (front_ptr s) (\<lambda>x. x\<lparr>next_node := back_ptr s\<rparr>) s;
       s2 \<leftarrow> set_queue_node (back_ptr s1) (\<lambda>x. x\<lparr>prev_node := front_ptr s1\<rparr>) s1;
       f \<leftarrow> queue_node s2 (front_ptr s2);
       s3 \<leftarrow> set_queue_node (prev_node f) (\<lambda>x. x\<lparr>next_node := None\<rparr>) s2;
       let s4 = s3\<lparr>back_ptr := front_ptr s3\<rparr>;
       f' \<leftarrow> queue_node s4 (front_ptr s4);
       let s5 = s4\<lparr>front_ptr := prev_node f'\<rparr>;
       s6 \<leftarrow> set_queue_node (back_ptr s5) (\<lambda>x. x\<lparr>prev_node := None\<rparr>) s5;
       Some (0, s6)
     } else do {
       s1 \<leftarrow> set_queue_node (prev_node n) (\<lambda>x. x\<lparr>next_node := next_node n\<rparr>) s;
       n1 \<leftarrow> queue_nodes s1 node;
       s2 \<leftarrow> set_queue_node (next_node n1) (\<lambda>x. x\<lparr>prev_node := prev_node n1\<rparr>) s1;
       s3 \<leftarrow> set_queue_node (back_ptr s2) (\<lambda>x. x\<lparr>prev_node := Some node\<rparr>) s2;
       s4 \<leftarrow> set_queue_node (Some node) (\<lambda>x. x\<lparr>next_node := back_ptr s3, prev_node := None\<rparr>) s3;
       Some (0, s4\<lparr>back_ptr := Some node\<rparr>)
     }
   }"

text \<open>The fields of a queue node that \<^verbatim>\<open>put_raid_cache\<close> has just allocated.\<close>

definition new_queue_node :: "block_data \<Rightarrow> nat \<times> nat \<Rightarrow> QUEUE_NODE" where
  "new_queue_node buf h =
     \<lparr> value_buf = buf, age_bit = 0, next_node = None, prev_node = None,
       parent_hash_node = Some h \<rparr>"

definition count_insert :: "'b driver_state \<Rightarrow> 'b driver_state" where
  "count_insert s =
     s\<lparr>total_cache_inserts := total_cache_inserts s + 1,
       total_cache_misses := total_cache_misses s + 1\<rparr>"

text \<open>
  \<^verbatim>\<open>put_raid_cache\<close>. Its four paths: an empty bucket (where the queue is extended
  without \<^verbatim>\<open>insert_in_queue\<close> while it holds no or one node), a bucket without the
  pair, a hash node whose queue node was evicted, and a pair that is in the cache.
  The call is first entered in the history \<open>put_log\<close>.
\<close>

definition put_raid_cache ::
  "'b env \<Rightarrow> RAIDDiskID \<Rightarrow> RAIDBlockID \<Rightarrow> block_data \<Rightarrow> 'b driver_state
     \<Rightarrow> (int \<times> 'b driver_state) option" where
  "put_raid_cache E dsk blk buf s0 = do {
     let s = s0\<lparr>put_log := put_log s0 @ [(length (bus_log s0), dsk, blk, buf)]\<rparr>;
     hash_value \<leftarrow> bucket_index dsk blk;
     if hashtable s hash_value = [] then do {
       let h = (hash_value, 0);
       let (q, s1) = alloc_queue_node (new_queue_node buf h) s;
       let s2 = s1\<lparr>hashtable := (hashtable s1)
                  (hash_value := [\<lparr> hdisk = dsk, hblock = blk, cache_block_ptr = Some q \<rparr>])\<rparr>;
       if capacity s2 = 0 then
         Some (0, count_insert (s2\<lparr>front_ptr := Some q, back_ptr := Some q,
                                   capacity := capacity s2 + 1\<rparr>))
       else if capacity s2 = 1 then do {
         let s3 = s2\<lparr>back_ptr := Some q\<rparr>;
         s4 \<leftarrow> set_queue_node (front_ptr s3) (\<lambda>n. n\<lparr>prev_node := Some q\<rparr>) s3;
         s5 \<leftarrow> set_queue_node (Some q) (\<lambda>n. n\<lparr>next_node := front_ptr s4\<rparr>) s4;
         Some (0, count_insert (s5\<lparr>capacity := capacity s5 + 1\<rparr>))
       } else do {
         (rc, s3) \<leftarrow> insert_in_queue E q (count_insert s2);
         if rc \<noteq> 0 then Some (-1, s3) else Some (0, s3)
       }
     } else
       (case find_hash_node (hashtable s hash_value) dsk blk of
          None \<Rightarrow> do {
            let h = (hash_value, length (hashtable s hash_value));
            let (q, s1) = alloc_queue_node (new_queue_node buf h) s;
            let s2 = s1\<lparr>hashtable := (hashtable s1)
                       (hash_value := hashtable s1 hash_value @
                          [\<lparr> hdisk = dsk, hblock = blk, cache_block_ptr = Some q \<rparr>])\<rparr>;
            (rc, s3) \<leftarrow> insert_in_queue E q (count_insert s2);
            if rc \<noteq> 0 then Some (-1, s3) else Some (0, s3)
          }
        | Some i \<Rightarrow>
            (case cache_block_ptr (hashtable s hash_value ! i) of
               None \<Rightarrow> do {
                 let h = (hash_value, i);
                 let (q, s1) = alloc_queue_node (new_queue_node buf h) s;
                 s2 \<leftarrow> set_hash_node h (\<lambda>x. x\<lparr>cache_block_ptr := Some q\<rparr>) s1;
                 (rc, s3) \<leftarrow> insert_in_queue E q (count_insert s2);
                 if rc \<noteq> 0 then Some (-1, s3) else Some (0, s3)
               }
             | Some q \<Rightarrow> do {
                 let s1 = s\<lparr>total_cache_hits := total_cache_hits s + 1\<rparr>;
                 s2 \<leftarrow> set_queue_node (Some q) (\<lambda>n. n\<lparr>value_buf := buf\<rparr>) s1;
                 (rc, s3) \<leftarrow> update_block_in_queue q s2;
                 if rc \<noteq> 0 then Some (-1, s3) else Some (0, s3)
               }))
   }"

text \<open>
  \<^verbatim>\<open>get_raid_cache\<close>: the buffer of the pair's queue node, or \<^verbatim>\<open>NULL\<close>. It
  counts the access and leaves the queue as it is.
\<close>

definition get_raid_cache ::
  "RAIDDiskID \<Rightarrow> RAIDBlockID \<Rightarrow> 'b driver_state
     \<Rightarrow> (block_data option \<times> 'b driver_state) option" where
  "get_raid_cache dsk blk s0 = do {
     let s = s0\<lparr>total_cache_gets := total_cache_gets s0 + 1\<rparr>;
     hash_value \<leftarrow> bucket_index dsk blk;
     let miss = s\<lparr>total_cache_misses := total_cache_misses s + 1\<rparr>;
     if hashtable s hash_value = [] then Some (None, miss)
     else
       (case find_hash_node (hashtable s hash_value) dsk blk of
          None \<Rightarrow> Some (None, miss)
        | Some i \<Rightarrow>
            (case cache_block_ptr (hashtable s hash_value ! i) of
               None \<Rightarrow> Some (None, miss)
             | Some q \<Rightarrow> do {
                 n \<leftarrow> queue_nodes s q;
                 Some (Some (value_buf n), s\<lparr>total_cache_hits := total_cache_hits s + 1\<rparr>)
               }))
   }"

text \<open>
  \<^verbatim>\<open>close_raid_cache\<close>: \<^verbatim>\<open>free_hash_nodes\<close> on every bucket of the table. It
  frees the chain from its end, and with each hash node the queue node it points to;
  freeing a queue node twice is a crash. The function always returns 0.
\<close>

fun free_hash_nodes :: "HASH_NODE list \<Rightarrow> 'b driver_state \<Rightarrow> 'b driver_state option" where
  "free_hash_nodes [] s = Some s"
| "free_hash_nodes (n # ns) s = do {
     s1 \<leftarrow> free_hash_nodes ns s;
     case cache_block_ptr n of
       None \<Rightarrow> Some s1
     | Some q \<Rightarrow>
         (case queue_nodes s1 q of
            None \<Rightarrow> None
          | Some _ \<Rightarrow> Some (s1\<lparr>queue_nodes := (queue_nodes s1)(q := None)\<rparr>))
   }"

fun free_buckets :: "nat \<Rightarrow> nat \<Rightarrow> 'b driver_state \<Rightarrow> 'b driver_state option" where
  "free_buckets entry 0 s = Some s"
| "free_buckets entry (Suc k) s = do {
     s1 \<leftarrow> free_hash_nodes (hashtable s entry) s;
     free_buckets (Suc entry) k s1
   }"

definition close_raid_cache :: "'b driver_state \<Rightarrow> (int \<times> 'b driver_state) option" where
  "close_raid_cache s = do {
     s1 \<leftarrow> free_buckets 0 HASHTABLE_SIZE s;
     Some (0, s1)
   }"

section \<open>The driver (tagline\_driver.c)\<close>

text \<open>
  The loops \<^verbatim>\<open>while (current_tag->tagline != tag)\<close> and
  \<^verbatim>\<open>while (current_block->block != bnum)\<close>: the position of the first node with the
  number wanted; the loop dereferences \<^verbatim>\<open>NULL\<close> when there is none.
\<close>

fun find_tag :: "TAGLINE list \<Rightarrow> 16 word \<Rightarrow> nat option" where
  "find_tag [] tag = None"
| "find_tag (t # ts) tag =
     (if tagline t = tag then Some 0 else map_option Suc (find_tag ts tag))"

fun find_block :: "BLOCK list \<Rightarrow> 32 word \<Rightarrow> nat option" where
  "find_block [] bnum = None"
| "find_block (b # bs) bnum =
     (if block b = bnum then Some 0 else map_option Suc (find_block bs bnum))"

definition get_max_start_allowed :: "16 word \<Rightarrow> 'b driver_state \<Rightarrow> 32 word option" where
  "get_max_start_allowed tag s =
     map_option (\<lambda>i. max_start_allowed (head_tag s ! i)) (find_tag (head_tag s) tag)"

text \<open>
  \<^verbatim>\<open>add_new_tag\<close>: the new tagline's number is the count of the taglines before it,
  stored in a \<^verbatim>\<open>uint16_t\<close>.
\<close>

definition add_new_tag :: "'b driver_state \<Rightarrow> int \<times> 'b driver_state" where
  "add_new_tag s =
     (0, s\<lparr>head_tag := head_tag s @
              [\<lparr> tagline = of_nat (length (head_tag s)), max_start_allowed = 0,
                 blocks_in_tagline = 0, block_0 = [] \<rparr>],
            taglines_in_use := taglines_in_use s + 1\<rparr>)"

text \<open>
  \<^verbatim>\<open>RAID_scheduler\<close>: the four branches of the source in their order. The result
  \<open>None\<close> is the return value -1, \<open>Some\<close> the disk and block written to the
  scheduled block with the return value 0. The argument \<^verbatim>\<open>primary_disk\<close> is not used.
\<close>

definition RAID_scheduler ::
  "RAIDDiskID \<Rightarrow> 'b driver_state \<Rightarrow> (RAIDDiskID \<times> RAIDBlockID) option \<times> 'b driver_state" where
  "RAID_scheduler primary_disk s =
     (if current_block s = of_nat RAID_DISKBLOCKS \<and> current_disk s = of_nat RAID_DISKS
      then (None, s)
      else if current_block s = of_nat (RAID_DISKBLOCKS - 1) \<and> current_disk s = of_nat RAID_DISKS
      then (Some (current_disk s, current_block s),
            s\<lparr>current_disk := current_disk s + 1, current_block := current_block s + 1\<rparr>)
      else if current_disk s = of_nat (RAID_DISKS - 1)
      then (Some (current_disk s, current_block s),
            s\<lparr>current_disk := 0,
              current_block := (if current_block s = of_nat RAID_DISKBLOCKS then 0
                                else current_block s + 1)\<rparr>)
      else (Some (current_disk s, current_block s), s\<lparr>current_disk := current_disk s + 1\<rparr>))"

text \<open>\<^verbatim>\<open>last_block_added[disk]++\<close> on the array of \<^verbatim>\<open>RAID_DISKS\<close> counters.\<close>

definition bump_last_block_added :: "RAIDDiskID \<Rightarrow> 'b driver_state \<Rightarrow> 'b driver_state option" where
  "bump_last_block_added d s =
     (if unat d < length (last_block_added s)
      then Some (s\<lparr>last_block_added :=
                   (last_block_added s)[unat d := last_block_added s ! unat d + 1]\<rparr>)
      else None)"

definition set_tag :: "nat \<Rightarrow> (TAGLINE \<Rightarrow> TAGLINE) \<Rightarrow> 'b driver_state \<Rightarrow> 'b driver_state" where
  "set_tag i f s = s\<lparr>head_tag := (head_tag s)[i := f (head_tag s ! i)]\<rparr>"

text \<open>
  \<^verbatim>\<open>tagline_write\<close> for one block, the branch \<^verbatim>\<open>bnum == max_start\<close>: the primary
  is scheduled and put into the cache, the new block node is appended to the tagline,
  then the backup is scheduled and put, and last the node's backup fields are assigned.
  A failing step returns -1 and leaves what the steps before it did.
\<close>

definition write_new_block ::
  "'b env \<Rightarrow> 16 word \<Rightarrow> 32 word \<Rightarrow> block_data \<Rightarrow> 'b driver_state
     \<Rightarrow> (int \<times> 'b driver_state) option" where
  "write_new_block E tag bnum buf s =
     (case RAID_scheduler (-1) s of
        (None, s1) \<Rightarrow> Some (-1, s1)
      | (Some (pd, pb), s1) \<Rightarrow> do {
          (rc, s2) \<leftarrow> put_raid_cache E pd pb buf s1;
          if rc \<noteq> 0 then Some (-1, s2) else do {
            s3 \<leftarrow> bump_last_block_added pd s2;
            ti \<leftarrow> find_tag (head_tag s3) tag;
            let new_block = \<lparr> block = bnum, RAID_disk = pd, RAID_block = pb,
                              backup_disk = fst (uninit_backup E tag bnum),
                              backup_block = snd (uninit_backup E tag bnum) \<rparr>;
            let s4 = set_tag ti (\<lambda>t. t\<lparr>blocks_in_tagline := blocks_in_tagline t + 1,
                                        max_start_allowed := max_start_allowed t + 1,
                                        block_0 := block_0 t @ [new_block]\<rparr>) s3;
            case RAID_scheduler pd s4 of
              (None, s5) \<Rightarrow> Some (-1, s5)
            | (Some (bd, bb), s5) \<Rightarrow> do {
                (rc, s6) \<leftarrow> put_raid_cache E bd bb buf s5;
                if rc \<noteq> 0 then Some (-1, s6) else do {
                  s7 \<leftarrow> bump_last_block_added bd s6;
                  ti' \<leftarrow> find_tag (head_tag s7) tag;
                  _ \<leftarrow> find_block (block_0 (head_tag s7 ! ti')) bnum;
                  Some (0, set_tag ti (\<lambda>t. t\<lparr>block_0 := (block_0 t)
                            [length (block_0 t) - 1 :=
                               new_block\<lparr>backup_disk := bd, backup_block := bb\<rparr>]\<rparr>) s7)
                }
              }
          }
        })"

text \<open>The branch \<^verbatim>\<open>bnum < max_start\<close>: both addresses of the block are put again.\<close>

definition write_old_block ::
  "'b env \<Rightarrow> 16 word \<Rightarrow> 32 word \<Rightarrow> block_data \<Rightarrow> 'b driver_state
     \<Rightarrow> (int \<times> 'b driver_state) option" where
  "write_old_block E tag bnum buf s = do {
     ti \<leftarrow> find_tag (head_tag s) tag;
     bi \<leftarrow> find_block (block_0 (head_tag s ! ti)) bnum;
     let cb = block_0 (head_tag s ! ti) ! bi;
     (rc, s1) \<leftarrow> put_raid_cache E (RAID_disk cb) (RAID_block cb) buf s;
     if rc \<noteq> 0 then Some (-1, s1) else do {
       (rc, s2) \<leftarrow> put_raid_cache E (backup_disk cb) (backup_block cb) buf s1;
       if rc \<noteq> 0 then Some (-1, s2) else Some (0, s2)
     }
   }"

text \<open>
  The body of \<^verbatim>\<open>tagline_write\<close> below the test \<^verbatim>\<open>blks > 1\<close>. The tests for a
  tagline that does not exist and for a block beyond the allowed start only log a
  message; \<^verbatim>\<open>get_max_start_allowed\<close> runs off the list when the tagline is missing.
\<close>

definition tagline_write1 ::
  "'b env \<Rightarrow> 16 word \<Rightarrow> 32 word \<Rightarrow> block_data \<Rightarrow> 'b driver_state
     \<Rightarrow> (int \<times> 'b driver_state) option" where
  "tagline_write1 E tag bnum buf s = do {
     max_start \<leftarrow> get_max_start_allowed tag s;
     (rc, s1) \<leftarrow> (if bnum = max_start then write_new_block E tag bnum buf s else Some (0, s));
     if rc \<noteq> 0 then Some (-1, s1)
     else if bnum < max_start then write_old_block E tag bnum buf s1
     else Some (0, s1)
   }"

text \<open>
  The caller's buffer is the memory from \<^verbatim>\<open>buf\<close> on in units of one block:
  \<open>buf i\<close> is the block at \<^verbatim>\<open>buf + RAID_BLOCK_SIZE*i\<close>. The loop of
  \<^verbatim>\<open>tagline_write\<close> for \<^verbatim>\<open>blks > 1\<close> calls the function itself with one block.
\<close>

fun write_loop ::
  "'b env \<Rightarrow> 16 word \<Rightarrow> 32 word \<Rightarrow> nat \<Rightarrow> nat \<Rightarrow> (nat \<Rightarrow> block_data) \<Rightarrow> 'b driver_state
     \<Rightarrow> (int \<times> 'b driver_state) option" where
  "write_loop E tag bnum 0 i buf s = Some (0, s)"
| "write_loop E tag bnum (Suc n) i buf s = do {
     (rc, s1) \<leftarrow> tagline_write1 E tag (bnum + of_nat i) (buf i) s;
     if rc \<noteq> 0 then Some (-1, s1) else write_loop E tag bnum n (Suc i) buf s1
   }"

definition tagline_write ::
  "'b env \<Rightarrow> 16 word \<Rightarrow> 32 word \<Rightarrow> 8 word \<Rightarrow> (nat \<Rightarrow> block_data) \<Rightarrow> 'b driver_state
     \<Rightarrow> (int \<times> 'b driver_state) option" where
  "tagline_write E tag bnum blks buf s =
     (if blks > 1 then write_loop E tag bnum (unat blks) 0 buf s
      else tagline_write1 E tag bnum (buf 0) s)"

text \<open>
  The body of \<^verbatim>\<open>tagline_read\<close> below the test \<^verbatim>\<open>blks > 1\<close>, with the content
  of the caller's block before and after. After a miss only the status bit of the READ
  response is tested, and the result of \<^verbatim>\<open>put_raid_cache\<close> is logged, not returned.
\<close>

definition tagline_read1 ::
  "'b env \<Rightarrow> 16 word \<Rightarrow> 32 word \<Rightarrow> block_data \<Rightarrow> 'b driver_state
     \<Rightarrow> (int \<times> block_data \<times> 'b driver_state) option" where
  "tagline_read1 E tag bnum buf s =
     (if ucast tag \<ge> taglines_in_use s then Some (-1, buf, s)
      else do {
        max_start \<leftarrow> get_max_start_allowed tag s;
        if bnum \<ge> max_start then Some (-1, buf, s)
        else do {
          ti \<leftarrow> find_tag (head_tag s) tag;
          bi \<leftarrow> find_block (block_0 (head_tag s ! ti)) bnum;
          let cb = block_0 (head_tag s ! ti) ! bi;
          (fixbuf, s1) \<leftarrow> get_raid_cache (RAID_disk cb) (RAID_block cb) s;
          case fixbuf of
            None \<Rightarrow>
              if \<not> containers s1 then None
              else
                let read = \<lparr> request_type = RAID_READ E, number_of_blocks = 1,
                             disk_number = RAID_disk cb, reserved = 0, status = 0,
                             blockid = RAID_block cb \<rparr>
                in (case client_raid_bus_request E (generate_RAIDOpCode read) (Some buf) s1 of
                      (read_opcode_response, payload, s2) \<Rightarrow>
                        let buf' = received payload buf
                        in if status (decode_RAIDOpCode read_opcode_response) \<noteq> 0
                           then Some (-1, buf', s2)
                           else do {
                             (rc, s3) \<leftarrow> put_raid_cache E (RAID_disk cb) (RAID_block cb) buf' s2;
                             Some (0, buf', s3)
                           })
          | Some d \<Rightarrow> Some (0, d, s1)
        }
      })"

fun read_loop ::
  "'b env \<Rightarrow> 16 word \<Rightarrow> 32 word \<Rightarrow> nat \<Rightarrow> nat \<Rightarrow> (nat \<Rightarrow> block_data) \<Rightarrow> 'b driver_state
     \<Rightarrow> (int \<times> (nat \<Rightarrow> block_data) \<times> 'b driver_state) option" where
  "read_loop E tag bnum 0 i buf s = Some (0, buf, s)"
| "read_loop E tag bnum (Suc n) i buf s = do {
     (rc, d, s1) \<leftarrow> tagline_read1 E tag (bnum + of_nat i) (buf i) s;
     if rc \<noteq> 0 then Some (-1, buf(i := d), s1)
     else read_loop E tag bnum n (Suc i) (buf(i := d)) s1
   }"

definition tagline_read ::
  "'b env \<Rightarrow> 16 word \<Rightarrow> 32 word \<Rightarrow> 8 word \<Rightarrow> (nat \<Rightarrow> block_data) \<Rightarrow> 'b driver_state
     \<Rightarrow> (int \<times> (nat \<Rightarrow> block_data) \<times> 'b driver_state) option" where
  "tagline_read E tag bnum blks buf s =
     (if blks > 1 then read_loop E tag bnum (unat blks) 0 buf s
      else map_option (\<lambda>(rc, d, s1). (rc, buf(0 := d), s1)) (tagline_read1 E tag bnum (buf 0) s))"

text \<open>
  \<^verbatim>\<open>tagline_driver_init\<close>. The containers are allocated, the cache initialised,
  \<^verbatim>\<open>RAID_INIT\<close> and one \<^verbatim>\<open>RAID_FORMAT\<close> per disk requested, each checked with
  \<^verbatim>\<open>check_response\<close>, and \<^verbatim>\<open>maxlines\<close> taglines appended.
\<close>

fun format_disks :: "'b env \<Rightarrow> nat \<Rightarrow> nat \<Rightarrow> 'b driver_state \<Rightarrow> int \<times> 'b driver_state" where
  "format_disks E dsk 0 s = (0, s)"
| "format_disks E dsk (Suc n) s =
     (let format = \<lparr> request_type = RAID_FORMAT E, number_of_blocks = 0,
                     disk_number = of_nat dsk, reserved = 0, status = 0, blockid = 0 \<rparr>
      in case client_raid_bus_request E (generate_RAIDOpCode format) None s of
           (format_opcode_response, _, s1) \<Rightarrow>
             if check_response format (decode_RAIDOpCode format_opcode_response) \<noteq> 0
             then (-1, s1)
             else format_disks E (Suc dsk) n s1)"

fun add_tags :: "nat \<Rightarrow> 'b driver_state \<Rightarrow> int \<times> 'b driver_state" where
  "add_tags 0 s = (0, s)"
| "add_tags (Suc n) s =
     (case add_new_tag s of (rc, s1) \<Rightarrow> if rc \<noteq> 0 then (-1, s1) else add_tags n s1)"

definition tagline_driver_init ::
  "'b env \<Rightarrow> 32 word \<Rightarrow> 'b driver_state \<Rightarrow> (int \<times> 'b driver_state) option" where
  "tagline_driver_init E maxlines s0 =
     (let s = s0\<lparr>containers := True\<rparr>
      in case init_raid_cache (TAGLINE_CACHE_SIZE E) s of
           (rc, s1) \<Rightarrow>
             if rc \<noteq> 0 then Some (-1, s1)
             else if RAID_TRACK_BLOCKS E = 0 then None
             else
               let total_number_of_tracks = (RAID_DISKS * RAID_DISKBLOCKS) div RAID_TRACK_BLOCKS E;
                   init = \<lparr> request_type = RAID_INIT E,
                            number_of_blocks = of_nat total_number_of_tracks,
                            disk_number = of_nat RAID_DISKS, reserved = 0, status = 0,
                            blockid = 0 \<rparr>
               in case client_raid_bus_request E (generate_RAIDOpCode init) None s1 of
                    (init_opcode_response, _, s2) \<Rightarrow>
                      if check_response init (decode_RAIDOpCode init_opcode_response) \<noteq> 0
                      then Some (-1, s2)
                      else
                        (case format_disks E 0 RAID_DISKS s2 of
                           (rc, s3) \<Rightarrow>
                             if rc \<noteq> 0 then Some (-1, s3)
                             else
                               (case add_tags (unat maxlines) s3 of
                                  (rc, s4) \<Rightarrow> if rc \<noteq> 0 then Some (-1, s4) else Some (0, s4))))"

text \<open>
  \<^verbatim>\<open>raid_disk_signal\<close>. For one block node of the walk: the copy that is not on the
  failed disk is taken from the cache or, on a miss, read from the bus into
  \<^verbatim>\<open>buf_read\<close> (status bit tested), and put into the cache under the address on the
  failed disk. \<^verbatim>\<open>buf_read\<close> is allocated by the function; the content it starts with
  is the parameter \<open>uninit_buffer\<close>, and a READ that delivers no payload leaves it as
  it is.
\<close>

definition recover_from ::
  "'b env \<Rightarrow> RAIDDiskID \<times> RAIDBlockID \<Rightarrow> RAIDDiskID \<times> RAIDBlockID \<Rightarrow> bool
     \<Rightarrow> block_data \<Rightarrow> 'b driver_state
     \<Rightarrow> (int \<times> block_data \<times> 'b driver_state) option" where
  "recover_from E alive lost copy_hit buf_read s = do {
     (buf, s1) \<leftarrow> get_raid_cache (fst alive) (snd alive) s;
     case buf of
       None \<Rightarrow>
         let read = \<lparr> request_type = RAID_READ E, number_of_blocks = 1,
                      disk_number = fst alive, reserved = 0, status = 0,
                      blockid = snd alive \<rparr>
         in (case client_raid_bus_request E (generate_RAIDOpCode read) (Some buf_read) s1 of
               (read_opcode_response, payload, s2) \<Rightarrow>
                 let buf_read' = received payload buf_read
                 in if status (decode_RAIDOpCode read_opcode_response) \<noteq> 0
                    then Some (-1, buf_read', s2)
                    else do {
                      (rc, s3) \<leftarrow> put_raid_cache E (fst lost) (snd lost) buf_read' s2;
                      if rc \<noteq> 0 then Some (-1, buf_read', s3) else Some (0, buf_read', s3)
                    })
     | Some d \<Rightarrow> do {
         let buf_read' = (if copy_hit then d else buf_read);
         (rc, s2) \<leftarrow> put_raid_cache E (fst lost) (snd lost) d s1;
         if rc \<noteq> 0 then Some (-1, buf_read', s2) else Some (0, buf_read', s2)
       }
   }"

text \<open>
  The two branches of the walk compare the node's \<^verbatim>\<open>RAID_disk\<close> and then its
  \<^verbatim>\<open>backup_disk\<close> with the failed disk, whatever the fields hold.
\<close>

definition recover_block ::
  "'b env \<Rightarrow> RAIDDiskID \<Rightarrow> BLOCK \<Rightarrow> block_data \<Rightarrow> 'b driver_state
     \<Rightarrow> (int \<times> block_data \<times> 'b driver_state) option" where
  "recover_block E dsk cb buf_read s =
     (if RAID_disk cb = dsk then
        recover_from E (backup_disk cb, backup_block cb) (RAID_disk cb, RAID_block cb) True
          buf_read s
      else if backup_disk cb = dsk then
        recover_from E (RAID_disk cb, RAID_block cb) (backup_disk cb, backup_block cb) False
          buf_read s
      else Some (0, buf_read, s))"

fun recover_blocks ::
  "'b env \<Rightarrow> RAIDDiskID \<Rightarrow> BLOCK list \<Rightarrow> block_data \<Rightarrow> 'b driver_state
     \<Rightarrow> (int \<times> block_data \<times> 'b driver_state) option" where
  "recover_blocks E dsk [] buf_read s = Some (0, buf_read, s)"
| "recover_blocks E dsk (cb # cbs) buf_read s = do {
     (rc, buf_read', s1) \<leftarrow> recover_block E dsk cb buf_read s;
     if rc \<noteq> 0 then Some (-1, buf_read', s1) else recover_blocks E dsk cbs buf_read' s1
   }"

text \<open>
  One iteration of the loop over the disks: the STATUS request, and for a disk whose
  response has block identifier 2 the FORMAT request and the walk over every block of
  every tagline. The loop then goes on to the next disk.
\<close>

definition signal_disk ::
  "'b env \<Rightarrow> RAIDDiskID \<Rightarrow> block_data \<Rightarrow> 'b driver_state
     \<Rightarrow> (int \<times> block_data \<times> 'b driver_state) option" where
  "signal_disk E dsk buf_read s =
     (let status_req = \<lparr> request_type = RAID_STATUS E, number_of_blocks = 0,
                         disk_number = dsk, reserved = 0, status = 0, blockid = 0 \<rparr>
      in case client_raid_bus_request E (generate_RAIDOpCode status_req) None s of
           (status_opcode_response, _, s1) \<Rightarrow>
             if status (decode_RAIDOpCode status_opcode_response) \<noteq> 0
             then Some (-1, buf_read, s1)
             else if blockid (decode_RAIDOpCode status_opcode_response) = 2 then
               (let format = \<lparr> request_type = RAID_FORMAT E, number_of_blocks = 0,
                               disk_number = dsk, reserved = 0, status = 0, blockid = 0 \<rparr>
                in case client_raid_bus_request E (generate_RAIDOpCode format) None s1 of
                     (format_opcode_response, _, s2) \<Rightarrow>
                       if status (decode_RAIDOpCode format_opcode_response) \<noteq> 0
                       then Some (-1, buf_read, s2)
                       else recover_blocks E dsk (concat (map block_0 (head_tag s2))) buf_read s2)
             else Some (0, buf_read, s1))"

fun signal_disks ::
  "'b env \<Rightarrow> nat \<Rightarrow> nat \<Rightarrow> block_data \<Rightarrow> 'b driver_state
     \<Rightarrow> (int \<times> 'b driver_state) option" where
  "signal_disks E dsk 0 buf_read s = Some (0, s)"
| "signal_disks E dsk (Suc n) buf_read s = do {
     (rc, buf_read', s1) \<leftarrow> signal_disk E (of_nat dsk) buf_read s;
     if rc \<noteq> 0 then Some (-1, s1) else signal_disks E (Suc dsk) n buf_read' s1
   }"

definition raid_disk_signal :: "'b env \<Rightarrow> 'b driver_state \<Rightarrow> (int \<times> 'b driver_state) option" where
  "raid_disk_signal E s =
     (if \<not> containers s then None else signal_disks E 0 RAID_DISKS (uninit_buffer E) s)"

text \<open>
  \<^verbatim>\<open>tagline_close\<close>: the cache is closed, \<^verbatim>\<open>RAID_CLOSE\<close> requested and checked
  with \<^verbatim>\<open>check_response\<close>, and the taglines freed: \<^verbatim>\<open>free_tag_linked_list\<close>
  dereferences the head of the list, and \<^verbatim>\<open>free_block_linked_list\<close> the first block
  of every tagline. The cache and the list are freed, so the result is the return value
  with the state of the server and the history of the bus only.
\<close>

definition tagline_close ::
  "'b env \<Rightarrow> 'b driver_state \<Rightarrow> (int \<times> 'b \<times> (RAIDOpCode \<times> RAIDOpCode) list) option" where
  "tagline_close E s = do {
     (rc, s1) \<leftarrow> close_raid_cache s;
     if rc \<noteq> 0 then Some (-1, bus s1, bus_log s1)
     else if \<not> containers s1 then None
     else
       let close = \<lparr> request_type = RAID_CLOSE E, number_of_blocks = 0, disk_number = 0,
                     reserved = 0, status = 0, blockid = 0 \<rparr>
       in (case client_raid_bus_request E (generate_RAIDOpCode close) None s1 of
             (close_opcode_response, _, s2) \<Rightarrow>
               if check_response close (decode_RAIDOpCode close_opcode_response) \<noteq> 0
               then Some (-1, bus s2, bus_log s2)
               else if head_tag s2 = [] \<or> (\<exists>t \<in> set (head_tag s2). block_0 t = []) then None
               else Some (0, bus s2, bus_log s2))
   }"

section \<open>A server that accepts every request\<close>

text \<open>
  An environment for running the driver on concrete inputs: the server answers every
  request with the request's own opcode (all fields echoed, status bit 0) and sends no
  payload. The request types are numbered from 0 in the order INIT, FORMAT, READ, WRITE,
  CLOSE, STATUS. Memory from \<^verbatim>\<open>malloc\<close> is zeroed: the backup fields of a fresh block
  node are disk 0 and block 0.
\<close>

definition echo_env :: "int \<Rightarrow> unit env" where
  "echo_env cache_size =
     \<lparr> bus_request = (\<lambda>b op buf. (b, op, None)), TAGLINE_CACHE_SIZE = cache_size,
       RAID_TRACK_BLOCKS = 1024, RAID_INIT = 0, RAID_FORMAT = 1, RAID_READ = 2,
       RAID_WRITE = 3, RAID_CLOSE = 4, RAID_STATUS = 5,
       uninit_backup = (\<lambda>tag bnum. (0, 0)), uninit_buffer = [] \<rparr>"

text \<open>
  A server that answers the requests of initialisation (INIT and FORMAT) with the
  request's own opcode.
\<close>

definition echoes_setup :: "'b env \<Rightarrow> bool" where
  "echoes_setup E =
     (RAID_TRACK_BLOCKS E \<noteq> 0 \<and>
      (\<forall>b r buf. (request_type r = RAID_INIT E \<or> request_type r = RAID_FORMAT E) \<and>
           reserved r = 0 \<and> status r = 0 \<longrightarrow>
           fst (snd (bus_request E b (generate_RAIDOpCode r) buf)) = generate_RAIDOpCode r))"

text \<open>The state after \<open>n\<close> calls of \<^verbatim>\<open>RAID_scheduler\<close>.\<close>

definition schedule_n :: "nat \<Rightarrow> 'b driver_state \<Rightarrow> 'b driver_state" where
  "schedule_n n s = ((\<lambda>s. snd (RAID_scheduler (-1) s)) ^^ n) s"

section \<open>Mirrors\<close>

text \<open>
  The primary and the backup of a block node are on different disks, for every block
  node of every tagline.
\<close>

definition block_disjoint :: "BLOCK \<Rightarrow> bool" where
  "block_disjoint b = (backup_disk b \<noteq> RAID_disk b)"

definition mirror_disjoint :: "TAGLINE list \<Rightarrow> bool" where
  "mirror_disjoint tags = list_all (\<lambda>t. list_all block_disjoint (block_0 t)) tags"

text \<open>The static variables of tagline\_driver.c.\<close>

definition driver_part ::
  "'b driver_state \<Rightarrow> int list \<times> TAGLINE list \<times> 32 word \<times> bool \<times> RAIDDiskID \<times> RAIDBlockID" where
  "driver_part s = (last_block_added s, head_tag s, taglines_in_use s, containers s,
     current_disk s, current_block s)"

section \<open>The history of the bus\<close>

text \<open>
  The entries of the history that a call added; an entry whose response has the status
  bit 0; an entry whose response passes \<^verbatim>\<open>check_response\<close> against its request; an entry
  whose request has a given type.
\<close>

definition new_log ::
  "'b driver_state \<Rightarrow> 'b driver_state \<Rightarrow> (RAIDOpCode \<times> RAIDOpCode) list" where
  "new_log s s' = drop (length (bus_log s)) (bus_log s')"

definition status_ok :: "RAIDOpCode \<times> RAIDOpCode \<Rightarrow> bool" where
  "status_ok e = (status (decode_RAIDOpCode (snd e)) = 0)"

definition checked :: "RAIDOpCode \<times> RAIDOpCode \<Rightarrow> bool" where
  "checked e = (check_response (decode_RAIDOpCode (fst e)) (decode_RAIDOpCode (snd e)) = 0)"

definition is_request :: "8 word \<Rightarrow> RAIDOpCode \<times> RAIDOpCode \<Rightarrow> bool" where
  "is_request ty e = (request_type (decode_RAIDOpCode (fst e)) = ty)"

text \<open>Every entry of the history from position \<open>n\<close> on satisfies \<open>P\<close>.\<close>

definition sound_from ::
  "(RAIDOpCode \<times> RAIDOpCode \<Rightarrow> bool) \<Rightarrow> nat \<Rightarrow> 'b driver_state \<Rightarrow> bool" where
  "sound_from P n s = list_all P (drop n (bus_log s))"

text \<open>
  A server that answers READ, WRITE and STATUS requests with a wrong disk number (status
  bit 0, no payload) and every other request with the request's own opcode, and a driver
  whose cache holds two blocks.
\<close>

definition mangle_env :: "unit env" where
  "mangle_env =
     \<lparr> bus_request = (\<lambda>b op buf.
         let r = decode_RAIDOpCode op
         in if request_type r = 2 \<or> request_type r = 3 \<or> request_type r = 5
            then (b, generate_RAIDOpCode (r\<lparr>disk_number := disk_number r + 1\<rparr>), None)
            else (b, op, None)),
       TAGLINE_CACHE_SIZE = 2, RAID_TRACK_BLOCKS = 1024, RAID_INIT = 0, RAID_FORMAT = 1,
       RAID_READ = 2, RAID_WRITE = 3, RAID_CLOSE = 4, RAID_STATUS = 5,
       uninit_backup = (\<lambda>tag bnum. (0, 0)), uninit_buffer = [] \<rparr>"

section \<open>The requests of the recovery\<close>

text \<open>
  The STATUS and the FORMAT request of \<^verbatim>\<open>raid_disk_signal\<close> for a disk; an entry of the
  history that is a READ or a WRITE; and the entries that one iteration of the loop over
  the disks adds: the STATUS request, and, when its response has status bit 0 and block
  identifier 2, the FORMAT request of the same disk followed by READ and WRITE requests
  only.
\<close>

definition status_request :: "'b env \<Rightarrow> RAIDDiskID \<Rightarrow> RAIDOpCode" where
  "status_request E d = generate_RAIDOpCode
     \<lparr> request_type = RAID_STATUS E, number_of_blocks = 0, disk_number = d, reserved = 0,
       status = 0, blockid = 0 \<rparr>"

definition format_request :: "'b env \<Rightarrow> RAIDDiskID \<Rightarrow> RAIDOpCode" where
  "format_request E d = generate_RAIDOpCode
     \<lparr> request_type = RAID_FORMAT E, number_of_blocks = 0, disk_number = d, reserved = 0,
       status = 0, blockid = 0 \<rparr>"

definition rebuild_entry :: "'b env \<Rightarrow> RAIDOpCode \<times> RAIDOpCode \<Rightarrow> bool" where
  "rebuild_entry E e = (is_request (RAID_READ E) e \<or> is_request (RAID_WRITE E) e)"

definition disk_segment ::
  "'b env \<Rightarrow> RAIDDiskID \<Rightarrow> (RAIDOpCode \<times> RAIDOpCode) list \<Rightarrow> bool" where
  "disk_segment E d seg =
     (case seg of
        [] \<Rightarrow> False
      | e # es \<Rightarrow>
          fst e = status_request E d \<and>
          (if status (decode_RAIDOpCode (snd e)) = 0 \<and> blockid (decode_RAIDOpCode (snd e)) = 2
           then (case es of
                   [] \<Rightarrow> False
                 | f # rs \<Rightarrow> fst f = format_request E d \<and> list_all (rebuild_entry E) rs)
           else es = []))"

text \<open>
  A server that reports disk 0 as failed (block identifier 2 in the response to its
  STATUS request) and answers every other request with the request's own opcode.
\<close>

definition failed_disk_env :: "unit env" where
  "failed_disk_env =
     \<lparr> bus_request = (\<lambda>b op buf.
         let r = decode_RAIDOpCode op
         in if request_type r = 5 \<and> disk_number r = 0
            then (b, generate_RAIDOpCode (r\<lparr>blockid := 2\<rparr>), None)
            else (b, op, None)),
       TAGLINE_CACHE_SIZE = 8192, RAID_TRACK_BLOCKS = 1024, RAID_INIT = 0, RAID_FORMAT = 1,
       RAID_READ = 2, RAID_WRITE = 3, RAID_CLOSE = 4, RAID_STATUS = 5,
       uninit_backup = (\<lambda>tag bnum. (0, 0)), uninit_buffer = [] \<rparr>"

section \<open>A transient write error\<close>

text \<open>
  A server that rejects one request once: the first WRITE for block 1 of disk 8 is
  answered with status bit 1, and the server's state records that this has happened.
  It reports disk 0 as failed in the response to its STATUS request and answers every
  other request with the request's own opcode. The cache holds two blocks, and memory
  from \<^verbatim>\<open>malloc\<close> is zeroed.
\<close>

definition glitch_env :: "bool env" where
  "glitch_env =
     \<lparr> bus_request = (\<lambda>b op buf.
         let r = decode_RAIDOpCode op
         in if \<not> b \<and> request_type r = 3 \<and> disk_number r = 8 \<and> blockid r = 1
            then (True, generate_RAIDOpCode (r\<lparr>status := 1\<rparr>), None)
            else if request_type r = 5 \<and> disk_number r = 0
            then (b, generate_RAIDOpCode (r\<lparr>blockid := 2\<rparr>), None)
            else (b, op, None)),
       TAGLINE_CACHE_SIZE = 2, RAID_TRACK_BLOCKS = 1024, RAID_INIT = 0, RAID_FORMAT = 1,
       RAID_READ = 2, RAID_WRITE = 3, RAID_CLOSE = 4, RAID_STATUS = 5,
       uninit_backup = (\<lambda>tag bnum. (0, 0)), uninit_buffer = [] \<rparr>"

section \<open>The history of the cache\<close>

text \<open>
  The calls of \<^verbatim>\<open>put_raid_cache\<close> that a call of the driver added to the history, the
  address and the data of such a call, and the property that the FORMAT request for the
  disk of the address was made, and answered with status bit 0, before the call and
  not before position \<open>start\<close> of the history of the bus.
\<close>

definition new_puts ::
  "'b driver_state \<Rightarrow> 'b driver_state \<Rightarrow> (nat \<times> RAIDDiskID \<times> RAIDBlockID \<times> block_data) list" where
  "new_puts s s' = drop (length (put_log s)) (put_log s')"

definition put_addr :: "nat \<times> RAIDDiskID \<times> RAIDBlockID \<times> block_data \<Rightarrow> RAIDDiskID \<times> RAIDBlockID" where
  "put_addr p = (fst (snd p), fst (snd (snd p)))"


definition formatted_before ::
  "'b env \<Rightarrow> (RAIDOpCode \<times> RAIDOpCode) list \<Rightarrow> nat
     \<Rightarrow> nat \<times> RAIDDiskID \<times> RAIDBlockID \<times> block_data \<Rightarrow> bool" where
  "formatted_before E log start p =
     list_ex (\<lambda>i. fst (log ! i) = format_request E (fst (snd p)) \<and> status_ok (log ! i))
       [start ..< min (fst p) (length log)]"

section \<open>One block written, one block read\<close>


section \<open>The opcode codec\<close>

text \<open>
  The encoder adds each field below the bits shifted so far. When the field fits the
  gap the shift opened, the sum is the bitwise disjunction, and the decoder's masks and
  shifts can be followed bit by bit.
\<close>

lemma add_is_or:
  fixes a b :: "64 word"
  assumes "\<And>n. bit b n \<Longrightarrow> n < k"
  shows "push_bit k a + b = push_bit k a OR b"
proof (rule disjunctive_add)
  fix n
  show "\<not> bit (push_bit k a) n \<or> \<not> bit b n"
    using assms[of n] by (auto simp: bit_push_bit_iff)
qed

lemma bit_lt_pow:
  fixes x :: "8 word"
  assumes "x < 2 ^ k" "bit x n"
  shows "n < k"
proof (rule ccontr)
  assume "\<not> n < k"
  then have "k \<le> n" by simp
  have "x AND mask k = x" using assms(1) by (rule less_mask_eq)
  with assms(2) have "bit (x AND mask k) n" by (simp only:)
  with \<open>k \<le> n\<close> show False by (simp add: bit_and_iff bit_mask_iff)
qed

lemma field_bound:
  fixes a b :: "64 word"
  assumes "\<And>n. bit a n \<Longrightarrow> n < m" "\<And>n. bit b n \<Longrightarrow> n < k" "bit (push_bit k a OR b) n"
  shows "n < m + k"
  using assms by (fastforce simp: bit_or_iff bit_push_bit_iff)

lemma low_field:
  fixes a :: "64 word" and b :: "'b::len word"
  assumes "\<And>n. bit b n \<Longrightarrow> n < j" "j \<le> k" "k \<le> 64"
  shows "ucast ((push_bit k a OR ucast b) AND mask j) = b"
  using assms
  by (intro bit_word_eqI)
    (fastforce simp: bit_ucast_iff bit_and_iff bit_or_iff bit_push_bit_iff bit_mask_iff
      dest: bit_imp_le_length)

lemma high_field:
  fixes a b :: "64 word"
  assumes "\<And>n. bit a n \<Longrightarrow> n < m" "m + k \<le> 64" "\<And>n. bit b n \<Longrightarrow> n < k"
  shows "drop_bit k (push_bit k a OR b) = a"
  using assms
  by (intro bit_word_eqI) (fastforce simp: bit_drop_bit_eq bit_or_iff bit_push_bit_iff)

text \<open>
  Decoding an encoded request gives the request back when its reserved field fits the
  six bits of the decoder's mask \<^verbatim>\<open>0x3F\<close> and its status one bit.
\<close>

lemma decode_generate_six_bits:
  assumes "reserved r < 64" "status r < 2"
  shows "decode_RAIDOpCode (generate_RAIDOpCode r) = r"
proof -
  obtain rt nb d res st bid where r: "r = \<lparr> request_type = rt, number_of_blocks = nb,
    disk_number = d, reserved = res, status = st, blockid = bid \<rparr>"
    by (cases r) auto
  have res: "\<And>n. bit res n \<Longrightarrow> n < 6" using assms(1) bit_lt_pow[of res 6] by (simp add: r)
  have st: "\<And>n. bit st n \<Longrightarrow> n < 1" using assms(2) bit_lt_pow[of st 1] by (simp add: r)
  have w8: "\<And>(x::8 word) n. bit x n \<Longrightarrow> n < 8" by (auto dest: bit_imp_le_length)
  have w32: "\<And>(x::32 word) n. bit x n \<Longrightarrow> n < 32" by (auto dest: bit_imp_le_length)
  have u8: "\<And>(x::8 word) n. bit (ucast x :: 64 word) n \<Longrightarrow> n < 8"
    by (auto simp: bit_ucast_iff dest: bit_imp_le_length)
  have u32: "\<And>(x::32 word) n. bit (ucast x :: 64 word) n \<Longrightarrow> n < 32"
    by (auto simp: bit_ucast_iff dest: bit_imp_le_length)
  have ures7: "\<And>n. bit (ucast res :: 64 word) n \<Longrightarrow> n < 7"
    by (auto simp: bit_ucast_iff dest: res)
  have ust: "\<And>n. bit (ucast st :: 64 word) n \<Longrightarrow> n < 1"
    by (auto simp: bit_ucast_iff dest: st)
  define g0 :: "64 word" where "g0 = ucast rt"
  define g1 :: "64 word" where "g1 = push_bit 8 g0 OR ucast nb"
  define g2 :: "64 word" where "g2 = push_bit 8 g1 OR ucast d"
  define g3 :: "64 word" where "g3 = push_bit 7 g2 OR ucast res"
  define g4 :: "64 word" where "g4 = push_bit 1 g3 OR ucast st"
  define g5 :: "64 word" where "g5 = push_bit 32 g4 OR ucast bid"
  have e1: "push_bit 8 g0 + ucast nb = g1"
    unfolding g1_def by (rule add_is_or) (erule u8)
  have e2: "push_bit 8 g1 + ucast d = g2"
    unfolding g2_def by (rule add_is_or) (erule u8)
  have e3: "push_bit 7 g2 + ucast res = g3"
    unfolding g3_def by (rule add_is_or) (erule ures7)
  have e4: "push_bit 1 g3 + ucast st = g4"
    unfolding g4_def by (rule add_is_or) (erule ust)
  have e5: "push_bit 32 g4 + ucast bid = g5"
    unfolding g5_def by (rule add_is_or) (erule u32)
  have g: "generate_RAIDOpCode r = g5"
    unfolding generate_RAIDOpCode_def Let_def r RAID_REQUEST.select_convs
      g0_def[symmetric] e1 e2 e3 e4 e5 ..
  have b0: "\<And>n. bit g0 n \<Longrightarrow> n < 8"
    unfolding g0_def by (erule u8)
  have b1: "\<And>n. bit g1 n \<Longrightarrow> n < 16"
    using field_bound[where a=g0 and m=8 and b="ucast nb" and k=8, OF b0 u8]
    unfolding g1_def by fastforce
  have b2: "\<And>n. bit g2 n \<Longrightarrow> n < 24"
    using field_bound[where a=g1 and m=16 and b="ucast d" and k=8, OF b1 u8]
    unfolding g2_def by fastforce
  have b3: "\<And>n. bit g3 n \<Longrightarrow> n < 31"
    using field_bound[where a=g2 and m=24 and b="ucast res" and k=7, OF b2 ures7]
    unfolding g3_def by fastforce
  have b4: "\<And>n. bit g4 n \<Longrightarrow> n < 32"
    using field_bound[where a=g3 and m=31 and b="ucast st" and k=1, OF b3 ust]
    unfolding g4_def by fastforce
  have m32: "(0x00000000FFFFFFFF :: 64 word) = mask 32" by (simp add: mask_eq_exp_minus_1)
  have m1: "(1 :: 64 word) = mask 1" by (simp add: mask_eq_exp_minus_1)
  have m6: "(0x3F :: 64 word) = mask 6" by (simp add: mask_eq_exp_minus_1)
  have m8: "(0xFF :: 64 word) = mask 8" by (simp add: mask_eq_exp_minus_1)
  have d1: "ucast (g5 AND 0x00000000FFFFFFFF) = bid"
    unfolding g5_def m32 by (rule low_field[OF w32]) simp_all
  have s1: "drop_bit 32 g5 = g4"
    unfolding g5_def by (rule high_field[OF b4 _ u32]) simp_all
  have d2: "ucast (g4 AND 0x0000000000000001) = st"
    unfolding g4_def m1 by (rule low_field[OF st]) simp_all
  have s2: "drop_bit 1 g4 = g3"
    unfolding g4_def by (rule high_field[OF b3 _ ust]) simp_all
  have d3: "ucast (g3 AND 0x000000000000003F) = res"
    unfolding g3_def m6 by (rule low_field[OF res]) simp_all
  have s3: "drop_bit 7 g3 = g2"
    unfolding g3_def by (rule high_field[OF b2 _ ures7]) simp_all
  have d4: "ucast (g2 AND 0x00000000000000FF) = d"
    unfolding g2_def m8 by (rule low_field[OF w8]) simp_all
  have s4: "drop_bit 8 g2 = g1"
    unfolding g2_def by (rule high_field[OF b1 _ u8]) simp_all
  have d5: "ucast (g1 AND 0x00000000000000FF) = nb"
    unfolding g1_def m8 by (rule low_field[OF w8]) simp_all
  have s5: "drop_bit 8 g1 = g0"
    unfolding g1_def by (rule high_field[OF b0 _ u8]) simp_all
  have d6: "ucast g0 = rt"
    unfolding g0_def by (rule bit_word_eqI) (auto simp: bit_ucast_iff)
  show ?thesis
    unfolding decode_RAIDOpCode_def Let_def g d1 s1 d2 s2 d3 s3 d4 s4 d5 s5 d6
    by (simp add: r)
qed

text \<open>
  C3. The opcode layout gives the reserved field seven bits, and the encoder and the
  decoder both shift by seven. The decoder masks the field with \<^verbatim>\<open>0x3F\<close>, six bits,
  so the top bit of a seven-bit reserved value is lost: the request below, whose fields
  all fit the layout, does not decode to itself.
\<close>

theorem decode_generate_reserved_64:
  "decode_RAIDOpCode (generate_RAIDOpCode
      \<lparr> request_type = 3, number_of_blocks = 1, disk_number = 5, reserved = 64,
        status = 0, blockid = 7 \<rparr>) =
     \<lparr> request_type = 3, number_of_blocks = 1, disk_number = 5, reserved = 0,
       status = 0, blockid = 7 \<rparr>"
  by (simp add: decode_RAIDOpCode_def generate_RAIDOpCode_def)
section \<open>Initialisation\<close>

lemma decode_generate_plain:
  "reserved r = 0 \<Longrightarrow> status r = 0 \<Longrightarrow> decode_RAIDOpCode (generate_RAIDOpCode r) = r"
  by (rule decode_generate_six_bits) simp_all

lemma format_disks_frame:
  "format_disks E d n s = (rc, s') \<Longrightarrow> \<exists>b l. s' = s\<lparr>bus := b, bus_log := l\<rparr>"
proof (induction n arbitrary: d s)
  case 0
  then have "s' = s" by simp
  then have "s' = s\<lparr>bus := bus s, bus_log := bus_log s\<rparr>" by simp
  then show ?case by blast
next
  case (Suc n)
  then show ?case
    by (fastforce simp: Let_def client_raid_bus_request_def split: prod.splits if_splits)
qed

lemma echoes_setupD:
  assumes "echoes_setup E" "request_type r = RAID_INIT E \<or> request_type r = RAID_FORMAT E"
    "reserved r = 0" "status r = 0"
  shows "\<exists>s'. client_raid_bus_request E (generate_RAIDOpCode r) buf s =
           (generate_RAIDOpCode r, snd (snd (bus_request E (bus s) (generate_RAIDOpCode r) buf)), s')"
proof -
  have "fst (snd (bus_request E (bus s) (generate_RAIDOpCode r) buf)) = generate_RAIDOpCode r"
    using assms by (simp add: echoes_setup_def)
  then show ?thesis
    by (cases "bus_request E (bus s) (generate_RAIDOpCode r) buf")
      (simp add: client_raid_bus_request_def)
qed

lemma format_disks_accept: "echoes_setup E \<Longrightarrow> fst (format_disks E d n s) = 0"
proof (induction n arbitrary: d s)
  case 0
  show ?case by simp
next
  case (Suc n)
  define format where "format = \<lparr> request_type = RAID_FORMAT E, number_of_blocks = 0,
                     disk_number = of_nat d, reserved = 0, status = 0, blockid = 0 \<rparr>"
  from echoes_setupD[OF Suc.prems, of format None s] obtain p s1 where
    c: "client_raid_bus_request E (generate_RAIDOpCode format) None s =
          (generate_RAIDOpCode format, p, s1)"
    by (auto simp: format_def)
  have chk: "check_response format (decode_RAIDOpCode (generate_RAIDOpCode format)) = 0"
    by (simp add: decode_generate_plain format_def check_response_def)
  show ?case
    using Suc.IH[OF Suc.prems, of "Suc d" s1]
    by (simp add: Let_def format_def[symmetric] c chk)
qed

lemma echo_env_echoes: "echoes_setup (echo_env c)"
  by (simp add: echoes_setup_def echo_env_def)

lemma format_disks_echo: "fst (format_disks (echo_env c) d n s) = 0"
  by (rule format_disks_accept[OF echo_env_echoes])

lemma add_tags_rc: "fst (add_tags n s) = 0"
  by (induction n arbitrary: s) (simp_all add: add_new_tag_def)

lemma add_tags_head_cong:
  "head_tag s = head_tag s' \<Longrightarrow> head_tag (snd (add_tags n s)) = head_tag (snd (add_tags n s'))"
  by (induction n arbitrary: s s') (simp_all add: add_new_tag_def)

lemma tagline_driver_init_head_tag:
  assumes "tagline_driver_init E maxlines s0 = Some (0, s)"
  shows "head_tag s = head_tag (snd (add_tags (unat maxlines) s0))"
proof -
  from assms obtain s2 s3 rc3 where f: "format_disks E 0 RAID_DISKS s2 = (rc3, s3)"
    and h2: "head_tag s2 = head_tag s0" and s: "s = snd (add_tags (unat maxlines) s3)"
    by (auto simp: tagline_driver_init_def init_raid_cache_def Let_def client_raid_bus_request_def
        split: prod.splits if_splits)
  from format_disks_frame[OF f] h2 have "head_tag s3 = head_tag s0" by auto
  then show ?thesis unfolding s by (rule add_tags_head_cong)
qed

text \<open>With a server that accepts the requests of initialisation, it succeeds.\<close>

lemma tagline_driver_init_accept:
  assumes "echoes_setup E"
  shows "\<exists>s. tagline_driver_init E maxlines s0 = Some (0, s)"
proof -
  define s1 where
    "s1 = snd (init_raid_cache (TAGLINE_CACHE_SIZE E) (s0\<lparr>containers := True\<rparr>))"
  define init where "init = \<lparr> request_type = RAID_INIT E,
      number_of_blocks = of_nat ((RAID_DISKS * RAID_DISKBLOCKS) div RAID_TRACK_BLOCKS E),
      disk_number = of_nat RAID_DISKS, reserved = 0, status = 0, blockid = 0 \<rparr>"
  from echoes_setupD[OF assms, of init None s1] obtain p s2 where
    c: "client_raid_bus_request E (generate_RAIDOpCode init) None s1
      = (generate_RAIDOpCode init, p, s2)"
    by (auto simp: init_def)
  have chk: "check_response init (decode_RAIDOpCode (generate_RAIDOpCode init)) = 0"
    by (simp add: decode_generate_plain init_def check_response_def)
  obtain s3 where f: "format_disks E 0 RAID_DISKS s2 = (0, s3)"
    using format_disks_accept[OF assms, of 0 RAID_DISKS s2] by (metis prod.collapse)
  obtain s4 where a: "add_tags (unat maxlines) s3 = (0, s4)"
    using add_tags_rc[of "unat maxlines" s3] by (metis prod.collapse)
  have tb: "RAID_TRACK_BLOCKS E \<noteq> 0" using assms by (simp add: echoes_setup_def)
  have "tagline_driver_init E maxlines s0 = Some (0, s4)"
    unfolding tagline_driver_init_def Let_def
    by (simp add: init_raid_cache_def s1_def[unfolded init_raid_cache_def, simplified, symmetric]
        init_def[symmetric] c chk f a tb)
  then show ?thesis by blast
qed

lemma tagline_driver_init_echo:
  "\<exists>s. tagline_driver_init (echo_env c) maxlines s0 = Some (0, s)"
  by (rule tagline_driver_init_accept[OF echo_env_echoes])

text \<open>
  What initialisation changes: the cache's queue variables, the containers, the bus, and
  on success the list of taglines.
\<close>

lemma add_tags_state:
  "snd (add_tags n s) = s\<lparr>head_tag := head_tag (snd (add_tags n s)),
      taglines_in_use := taglines_in_use (snd (add_tags n s))\<rparr>"
proof (induction n arbitrary: s)
  case 0
  show ?case by simp
next
  case (Suc n)
  show ?case
    apply (simp add: add_new_tag_def)
    apply (subst Suc)
    apply simp
    done
qed

lemma add_tags_use_cong:
  "taglines_in_use s = taglines_in_use s' \<Longrightarrow>
    taglines_in_use (snd (add_tags n s)) = taglines_in_use (snd (add_tags n s'))"
  by (induction n arbitrary: s s') (simp_all add: add_new_tag_def)

lemma tagline_driver_init_state:
  assumes "tagline_driver_init E maxlines s0 = Some (rc, s)"
  shows "\<exists>b l tags n. s = s0\<lparr>capacity := 0, back_ptr := None, front_ptr := None,
            max_cache_size := TAGLINE_CACHE_SIZE E, head_tag := tags, taglines_in_use := n,
            containers := True, bus := b, bus_log := l\<rparr> \<and>
         (if rc = 0 then tags = head_tag (snd (add_tags (unat maxlines) s0)) \<and>
                         n = taglines_in_use (snd (add_tags (unat maxlines) s0))
          else tags = head_tag s0 \<and> n = taglines_in_use s0)"
proof -
  define s1 where "s1 = s0\<lparr>containers := True, capacity := 0, back_ptr := None, front_ptr := None,
            max_cache_size := TAGLINE_CACHE_SIZE E\<rparr>"
  have i: "init_raid_cache (TAGLINE_CACHE_SIZE E) (s0\<lparr>containers := True\<rparr>) = (0, s1)"
    by (simp add: init_raid_cache_def s1_def)
  define init where "init = \<lparr> request_type = RAID_INIT E,
      number_of_blocks = of_nat ((RAID_DISKS * RAID_DISKBLOCKS) div RAID_TRACK_BLOCKS E),
      disk_number = of_nat RAID_DISKS, reserved = 0, status = 0, blockid = 0 \<rparr>"
  obtain r p s2 where c: "client_raid_bus_request E (generate_RAIDOpCode init) None s1 = (r, p, s2)"
    by (metis prod_cases3)
  have s2: "s2 = s1\<lparr>bus := bus s2, bus_log := bus_log s2\<rparr>"
    using c by (auto simp: client_raid_bus_request_def split: prod.splits)
  obtain rc3 s3 where f: "format_disks E 0 RAID_DISKS s2 = (rc3, s3)" by (metis prod.collapse)
  from format_disks_frame[OF f] have s3: "s3 = s2\<lparr>bus := bus s3, bus_log := bus_log s3\<rparr>"
    by auto
  have unf: "tagline_driver_init E maxlines s0 =
      (if RAID_TRACK_BLOCKS E = 0 then None
       else if check_response init (decode_RAIDOpCode r) \<noteq> 0 then Some (-1, s2)
       else if rc3 \<noteq> 0 then Some (-1, s3)
       else Some (0, snd (add_tags (unat maxlines) s3)))"
    unfolding tagline_driver_init_def Let_def i init_def[symmetric]
    using add_tags_rc[of "unat maxlines" s3]
    by (auto simp: c f split: prod.splits)
  have h3: "head_tag s3 = head_tag s0" "taglines_in_use s3 = taglines_in_use s0"
    by (subst s3, subst s2, simp add: s1_def)+
  have a: "head_tag (snd (add_tags (unat maxlines) s3)) = head_tag (snd (add_tags (unat maxlines) s0))"
    using h3 by (intro add_tags_head_cong) simp
  have t: "taglines_in_use (snd (add_tags (unat maxlines) s3)) =
       taglines_in_use (snd (add_tags (unat maxlines) s0))"
    using h3 by (intro add_tags_use_cong) simp
  have e1: "s1\<lparr>bus := b, bus_log := l\<rparr> = s0\<lparr>capacity := 0, back_ptr := None, front_ptr := None,
            max_cache_size := TAGLINE_CACHE_SIZE E, head_tag := head_tag s0,
            taglines_in_use := taglines_in_use s0,
            containers := True, bus := b, bus_log := l\<rparr>" for b l
    by (simp add: s1_def)
  have s2': "s2 = s0\<lparr>capacity := 0, back_ptr := None, front_ptr := None,
            max_cache_size := TAGLINE_CACHE_SIZE E, head_tag := head_tag s0,
            taglines_in_use := taglines_in_use s0,
            containers := True, bus := bus s2, bus_log := bus_log s2\<rparr>"
    by (subst s2) (simp add: e1)
  have s3': "s3 = s0\<lparr>capacity := 0, back_ptr := None, front_ptr := None,
            max_cache_size := TAGLINE_CACHE_SIZE E, head_tag := head_tag s0,
            taglines_in_use := taglines_in_use s0,
            containers := True, bus := bus s3, bus_log := bus_log s3\<rparr>"
    by (subst s3, subst s2') simp
  have s4': "snd (add_tags (unat maxlines) s3) = s0\<lparr>capacity := 0, back_ptr := None,
            front_ptr := None, max_cache_size := TAGLINE_CACHE_SIZE E,
            head_tag := head_tag (snd (add_tags (unat maxlines) s0)),
            taglines_in_use := taglines_in_use (snd (add_tags (unat maxlines) s0)),
            containers := True, bus := bus s3, bus_log := bus_log s3\<rparr>"
    by (subst add_tags_state, subst s3', simp add: a t)
  from assms[unfolded unf] consider
      (a) "rc = -1" "s = s2" | (b) "rc = -1" "s = s3"
    | (c) "rc = 0" "s = snd (add_tags (unat maxlines) s3)"
    by (auto split: if_splits)
  then show ?thesis
  proof cases
    case a
    then show ?thesis using s2' by (intro exI[of _ "bus s2"] exI[of _ "bus_log s2"] exI) auto
  next
    case b
    then show ?thesis using s3' by (intro exI[of _ "bus s3"] exI[of _ "bus_log s3"] exI) auto
  next
    case c
    then show ?thesis using s4' by (intro exI[of _ "bus s3"] exI[of _ "bus_log s3"] exI) auto
  qed
qed

section \<open>Writing beyond the end of a tagline\<close>

text \<open>
  A one-block write to a tagline that exists, at a block number above the tagline's
  \<^verbatim>\<open>max_start_allowed\<close>, takes neither branch of \<^verbatim>\<open>tagline_write\<close>: nothing is
  allocated, the state is as before, and the function returns 0.
\<close>

lemma tagline_write1_beyond:
  assumes "get_max_start_allowed tag s = Some ms" "ms < bnum"
  shows "tagline_write1 E tag bnum buf s = Some (0, s)"
  using assms by (auto simp: tagline_write1_def)

text \<open>
  C5. After \<^verbatim>\<open>tagline_driver_init(1)\<close> the write of one block at block number 1 of
  tagline 0, which would leave block 0 as a hole, does not fail: it returns 0 (success)
  and leaves the state unchanged. The source logs "Attemping to write beyond allowed
  start" at this point and goes on without returning -1.
\<close>

theorem write_hole_returns_success:
  "\<exists>s. tagline_driver_init (echo_env 8192) 1 (initial_state ()) = Some (0, s) \<and>
       tagline_write (echo_env 8192) 0 1 1 (\<lambda>_. [1, 2, 3]) s = Some (0, s)"
proof -
  obtain s where s: "tagline_driver_init (echo_env 8192) 1 (initial_state ()) = Some (0, s)"
    using tagline_driver_init_echo by blast
  have h: "head_tag s =
      [\<lparr> tagline = 0, max_start_allowed = 0, blocks_in_tagline = 0, block_0 = [] \<rparr>]"
    unfolding tagline_driver_init_head_tag[OF s] by (simp add: add_new_tag_def initial_state_def)
  have "get_max_start_allowed 0 s = Some 0" by (simp add: get_max_start_allowed_def h)
  then have "tagline_write1 (echo_env 8192) 0 1 [1, 2, 3] s = Some (0, s)"
    by (rule tagline_write1_beyond) simp
  then show ?thesis using s by (auto simp: tagline_write_def)
qed

section \<open>The allocator\<close>

lemma unat_of_nat8: "k < 256 \<Longrightarrow> unat (of_nat k :: 8 word) = k"
  by (simp add: unat_of_nat)

lemma unat_of_nat32: "k < 4294967296 \<Longrightarrow> unat (of_nat k :: 32 word) = k"
  by (simp add: unat_of_nat)

lemma of_nat8_neq:
  "k < 256 \<Longrightarrow> k \<noteq> numeral j \<Longrightarrow> numeral j < (256::nat) \<Longrightarrow> (of_nat k :: 8 word) \<noteq> numeral j"
  by (metis unat_of_nat8 of_nat_numeral)

lemma of_nat32_neq:
  "k < 4294967296 \<Longrightarrow> k \<noteq> numeral j \<Longrightarrow> numeral j < (4294967296::nat)
     \<Longrightarrow> (of_nat k :: 32 word) \<noteq> numeral j"
  by (metis unat_of_nat32 of_nat_numeral)

text \<open>
  The test for a full array compares \<^verbatim>\<open>current_disk\<close> with \<^verbatim>\<open>RAID_DISKS\<close>. The disk
  cursor is reset to 0 when it is \<^verbatim>\<open>RAID_DISKS-1\<close>, so from a cursor below
  \<^verbatim>\<open>RAID_DISKS\<close> it stays below and the scheduler always returns an address.
\<close>

lemma RAID_scheduler_succeeds:
  "current_disk s < 9 \<Longrightarrow> \<exists>a. fst (RAID_scheduler p s) = Some a"
  by (auto simp: RAID_scheduler_def RAID_DISKS_def)

lemma disk_cursor_step:
  fixes d :: "8 word"
  assumes "d < 9" "d \<noteq> 8"
  shows "d + 1 < 9"
proof -
  have 1: "unat d < 9" using assms(1) by (simp add: word_less_nat_alt)
  have "unat d \<noteq> 8"
  proof
    assume "unat d = 8"
    then have "unat d = unat (8 :: 8 word)" by simp
    then have "d = 8" by (simp only: word_unat_eq_iff)
    with assms(2) show False by simp
  qed
  with 1 have "unat d < 8" by simp
  then have "unat (d + 1) < 9" by (simp add: unat_word_ariths)
  then show ?thesis by (simp add: word_less_nat_alt)
qed

lemma RAID_scheduler_disk_range:
  assumes "current_disk s < 9"
  shows "current_disk (snd (RAID_scheduler p s)) < 9"
  using assms disk_cursor_step[of "current_disk s"]
  by (auto simp: RAID_scheduler_def RAID_DISKS_def)

text \<open>
  From the cursor (0, 0) the \<open>n\<close>-th call hands out block \<open>n div 9\<close> of disk
  \<open>n mod 9\<close>, through block 4096 of every disk.
\<close>

lemma schedule_n_cursor:
  assumes "current_disk s = 0" "current_block s = 0"
  shows "n \<le> 36872 \<Longrightarrow> current_disk (schedule_n n s) = of_nat (n mod 9) \<and>
         current_block (schedule_n n s) = of_nat (n div 9)"
proof (induction n)
  case 0
  then show ?case using assms by (simp add: schedule_n_def)
next
  case (Suc n)
  then have IH: "current_disk (schedule_n n s) = of_nat (n mod 9)"
     "current_block (schedule_n n s) = of_nat (n div 9)" and n: "n \<le> 36871" by auto
  have step: "schedule_n (Suc n) s = snd (RAID_scheduler (-1) (schedule_n n s))"
    by (simp add: schedule_n_def)
  have d9: "(of_nat (n mod 9) :: 8 word) \<noteq> 9"
  proof (rule of_nat8_neq)
    show "n mod 9 < 256" using mod_less_divisor[of 9 n] by linarith
    show "n mod 9 \<noteq> 9" using mod_less_divisor[of 9 n] by linarith
  qed simp
  show ?case
  proof (cases "n mod 9 = 8")
    case True
    then have m: "Suc n mod 9 = 0" "Suc n div 9 = Suc (n div 9)"
      by (simp_all add: mod_Suc div_Suc)
    have "n div 9 \<noteq> 4096" using True n div_mult_mod_eq[of n 9] by linarith
    then have "(of_nat (n div 9) :: 32 word) \<noteq> 4096"
      using n by (intro of_nat32_neq) simp_all
    then show ?thesis using True
      by (simp add: step RAID_scheduler_def IH RAID_DISKS_def RAID_DISKBLOCKS_def m)
  next
    case False
    then have m: "Suc n mod 9 = Suc (n mod 9)" "Suc n div 9 = n div 9"
      by (simp_all add: mod_Suc div_Suc)
    have "(of_nat (n mod 9) :: 8 word) \<noteq> 8"
    proof (rule of_nat8_neq)
      show "n mod 9 < 256" using mod_less_divisor[of 9 n] by linarith
      show "n mod 9 \<noteq> 8" using False .
    qed simp
    then show ?thesis using d9
      by (simp add: step RAID_scheduler_def IH RAID_DISKS_def RAID_DISKBLOCKS_def m)
  qed
qed

text \<open>
  C6. After \<^verbatim>\<open>RAID_DISKS * RAID_DISKBLOCKS\<close> = 36864 allocations from the initial
  cursor (18432 one-block writes of new blocks), every block 0..4095 of every disk has
  been handed out. The next call of \<^verbatim>\<open>RAID_scheduler\<close> does not return -1: it returns
  0 with the address (disk 0, block 4096), a block beyond the end of the disk.
\<close>

theorem RAID_scheduler_full_array:
  "fst (RAID_scheduler (-1) (schedule_n 36864 (initial_state b))) = Some (0, 4096)"
proof -
  have "current_disk (schedule_n 36864 (initial_state b)) = of_nat (36864 mod 9) \<and>
         current_block (schedule_n 36864 (initial_state b)) = of_nat (36864 div 9)"
    by (rule schedule_n_cursor) (simp_all add: initial_state_def)
  then show ?thesis by (simp add: RAID_scheduler_def RAID_DISKS_def RAID_DISKBLOCKS_def)
qed

section \<open>What the cache leaves alone\<close>

text \<open>
  The functions of the cache change the cache's own variables and the bus; the
  variables of the driver keep their values.
\<close>

lemma set_queue_node_driver:
  "set_queue_node p f s = Some s' \<Longrightarrow> driver_part s' = driver_part s"
  by (auto simp: set_queue_node_def driver_part_def split: option.splits)

lemma set_hash_node_driver:
  "set_hash_node h f s = Some s' \<Longrightarrow> driver_part s' = driver_part s"
  by (auto simp: set_hash_node_def driver_part_def split: if_splits)

lemma client_driver:
  "client_raid_bus_request E op buf s = (r, p, s') \<Longrightarrow> driver_part s' = driver_part s"
  by (auto simp: client_raid_bus_request_def driver_part_def split: prod.splits)

lemma evict_lru_driver:
  "evict_lru E s = Some (rc, s') \<Longrightarrow> driver_part s' = driver_part s"
  unfolding evict_lru_def
  by (auto simp: Let_def split: option.splits prod.splits if_splits Option.bind_splits
      dest!: set_queue_node_driver set_hash_node_driver client_driver)
    (auto simp: driver_part_def)

lemma insert_in_queue_driver:
  "insert_in_queue E q s = Some (rc, s') \<Longrightarrow> driver_part s' = driver_part s"
  unfolding insert_in_queue_def
  by (auto simp: Let_def split: option.splits prod.splits if_splits Option.bind_splits
      dest!: set_queue_node_driver evict_lru_driver)
    (auto simp: driver_part_def)

lemma update_block_in_queue_driver:
  "update_block_in_queue q s = Some (rc, s') \<Longrightarrow> driver_part s' = driver_part s"
  unfolding update_block_in_queue_def
  by (auto simp: Let_def split: option.splits prod.splits if_splits Option.bind_splits
      dest!: set_queue_node_driver)
    (auto simp: driver_part_def)

lemma put_raid_cache_driver:
  "put_raid_cache E d b buf s = Some (rc, s') \<Longrightarrow> driver_part s' = driver_part s"
  unfolding put_raid_cache_def
  by (auto simp: Let_def count_insert_def alloc_queue_node_def
      split: option.splits prod.splits if_splits Option.bind_splits
      dest!: set_queue_node_driver set_hash_node_driver insert_in_queue_driver
        update_block_in_queue_driver)
    (auto simp: driver_part_def)

lemma get_raid_cache_driver:
  "get_raid_cache d b s = Some (r, s') \<Longrightarrow> driver_part s' = driver_part s"
  unfolding get_raid_cache_def
  by (auto simp: Let_def driver_part_def
      split: option.splits prod.splits if_splits Option.bind_splits)

section \<open>What reading and recovery leave alone\<close>

lemma head_of_driver: "driver_part s' = driver_part s \<Longrightarrow> head_tag s' = head_tag s"
  by (simp add: driver_part_def)

lemma tagline_read1_driver:
  "tagline_read1 E t b buf s = Some (rc, d, s') \<Longrightarrow> driver_part s' = driver_part s"
  unfolding tagline_read1_def
  by (auto simp: Let_def split: option.splits prod.splits if_splits Option.bind_splits
      dest!: get_raid_cache_driver put_raid_cache_driver client_driver)

lemma read_loop_driver:
  "read_loop E t b n i buf s = Some (rc, buf', s') \<Longrightarrow> driver_part s' = driver_part s"
  by (induction n arbitrary: i buf s)
    (auto split: Option.bind_splits prod.splits if_splits dest!: tagline_read1_driver)

lemma tagline_read_driver:
  "tagline_read E t b n buf s = Some (rc, buf', s') \<Longrightarrow> driver_part s' = driver_part s"
  by (auto simp: tagline_read_def split: if_splits dest!: read_loop_driver tagline_read1_driver)

lemma recover_from_driver:
  "recover_from E a l c br s = Some (rc, br', s') \<Longrightarrow> driver_part s' = driver_part s"
  unfolding recover_from_def
  by (auto simp: Let_def split: option.splits prod.splits if_splits Option.bind_splits
      dest!: get_raid_cache_driver put_raid_cache_driver client_driver)

lemma recover_block_driver:
  "recover_block E d cb br s = Some (rc, br', s') \<Longrightarrow> driver_part s' = driver_part s"
  unfolding recover_block_def
  by (auto split: if_splits Option.bind_splits dest!: recover_from_driver)

lemma recover_blocks_driver:
  "recover_blocks E d cbs br s = Some (rc, br', s') \<Longrightarrow> driver_part s' = driver_part s"
  by (induction cbs arbitrary: br s)
    (auto split: Option.bind_splits prod.splits if_splits dest!: recover_block_driver)

lemma signal_disk_driver:
  "signal_disk E d br s = Some (rc, br', s') \<Longrightarrow> driver_part s' = driver_part s"
  unfolding signal_disk_def
  by (auto simp: Let_def split: prod.splits if_splits dest!: client_driver recover_blocks_driver)

lemma signal_disks_driver:
  "signal_disks E d n br s = Some (rc, s') \<Longrightarrow> driver_part s' = driver_part s"
  by (induction n arbitrary: d br s)
    (auto split: Option.bind_splits prod.splits if_splits dest!: signal_disk_driver)

lemma raid_disk_signal_driver:
  "raid_disk_signal E s = Some (rc, s') \<Longrightarrow> driver_part s' = driver_part s"
  by (auto simp: raid_disk_signal_def split: if_splits dest!: signal_disks_driver)

lemma write_old_block_driver:
  "write_old_block E t b buf s = Some (rc, s') \<Longrightarrow> driver_part s' = driver_part s"
  unfolding write_old_block_def
  by (auto simp: Let_def split: option.splits prod.splits if_splits Option.bind_splits
      dest!: put_raid_cache_driver)

section \<open>Running the driver on concrete inputs\<close>


lemma RAID_scheduler_none:
  "RAID_scheduler p s = (None, s') \<Longrightarrow> s' = s"
  by (auto simp: RAID_scheduler_def split: if_splits)



text \<open>The definitions that a run of the cache or of the driver unfolds.\<close>

lemmas cache_defs = put_raid_cache_def get_raid_cache_def insert_in_queue_def evict_lru_def
  update_block_in_queue_def set_queue_node_def set_hash_node_def hash_node_def queue_node_def
  alloc_queue_node_def new_queue_node_def count_insert_def bucket_index_def hashfunction_def
  HASHTABLE_SIZE_def client_raid_bus_request_def received_def

lemmas driver_defs = tagline_write_def tagline_write1_def write_new_block_def write_old_block_def
  tagline_read_def tagline_read1_def get_max_start_allowed_def RAID_scheduler_def
  bump_last_block_added_def set_tag_def RAID_DISKS_def RAID_DISKBLOCKS_def

lemma unit_init_state:
  fixes E :: "unit env"
  assumes "tagline_driver_init E 1 (initial_state ()) = Some (0, s0)"
  shows "\<exists>l. s0 = (initial_state ())\<lparr>max_cache_size := TAGLINE_CACHE_SIZE E,
      head_tag := [\<lparr>tagline = 0, max_start_allowed = 0, blocks_in_tagline = 0, block_0 = []\<rparr>],
      taglines_in_use := 1, containers := True, bus_log := l\<rparr>"
proof -
  from tagline_driver_init_state[OF assms] obtain b l where
    "s0 = (initial_state ())\<lparr>capacity := 0, back_ptr := None, front_ptr := None,
            max_cache_size := TAGLINE_CACHE_SIZE E,
            head_tag := head_tag (snd (add_tags (unat (1::32 word)) (initial_state ()))),
            taglines_in_use := taglines_in_use (snd (add_tags (unat (1::32 word)) (initial_state ()))),
            containers := True, bus := b, bus_log := l\<rparr>"
    by auto
  then have "s0 = (initial_state ())\<lparr>max_cache_size := TAGLINE_CACHE_SIZE E,
      head_tag := [\<lparr>tagline = 0, max_start_allowed = 0, blocks_in_tagline = 0, block_0 = []\<rparr>],
      taglines_in_use := 1, containers := True, bus_log := l\<rparr>"
    by (simp add: add_new_tag_def initial_state_def)
  then show ?thesis by blast
qed

lemma echo_init_state:
  assumes "tagline_driver_init (echo_env c) 1 (initial_state ()) = Some (0, s0)"
  shows "\<exists>l. s0 = (initial_state ())\<lparr>max_cache_size := c,
      head_tag := [\<lparr>tagline = 0, max_start_allowed = 0, blocks_in_tagline = 0, block_0 = []\<rparr>],
      taglines_in_use := 1, containers := True, bus_log := l\<rparr>"
  using unit_init_state[OF assms] by (simp add: echo_env_def)
section \<open>What the functions add to the history of the bus\<close>

lemma set_queue_node_log: "set_queue_node p f s = Some s' \<Longrightarrow> bus_log s' = bus_log s"
  by (auto simp: set_queue_node_def split: option.splits)

lemma set_hash_node_log: "set_hash_node h f s = Some s' \<Longrightarrow> bus_log s' = bus_log s"
  by (auto simp: set_hash_node_def split: if_splits)

lemma client_log:
  "client_raid_bus_request E op buf s = (r, p, s') \<Longrightarrow> bus_log s' = bus_log s @ [(op, r)]"
  by (auto simp: client_raid_bus_request_def split: prod.splits)

lemma is_request_generate:
  "reserved r = 0 \<Longrightarrow> status r = 0 \<Longrightarrow> is_request ty (generate_RAIDOpCode r, x) = (request_type r = ty)"
  by (simp add: is_request_def decode_generate_plain)

lemma evict_lru_log:
  assumes "evict_lru E s = Some (rc, s')"
  shows "\<exists>tr. bus_log s' = bus_log s @ tr \<and> list_all (is_request (RAID_WRITE E)) tr \<and>
           (rc = 0 \<longrightarrow> list_all status_ok tr)"
  using assms unfolding evict_lru_def
  by (auto simp: Let_def is_request_generate status_ok_def
      split: option.splits prod.splits if_splits Option.bind_splits
      dest!: set_queue_node_log set_hash_node_log client_log)

lemma insert_in_queue_log:
  assumes "insert_in_queue E q s = Some (rc, s')"
  shows "\<exists>tr. bus_log s' = bus_log s @ tr \<and> list_all (is_request (RAID_WRITE E)) tr \<and>
           (rc = 0 \<longrightarrow> list_all status_ok tr)"
  using assms unfolding insert_in_queue_def
  by (auto simp: Let_def split: option.splits prod.splits if_splits Option.bind_splits
      dest!: set_queue_node_log evict_lru_log)

lemma update_block_in_queue_log:
  "update_block_in_queue q s = Some (rc, s') \<Longrightarrow> bus_log s' = bus_log s \<and> rc = 0"
  unfolding update_block_in_queue_def
  by (auto simp: Let_def split: option.splits prod.splits if_splits Option.bind_splits
      dest!: set_queue_node_log)

lemma put_raid_cache_log:
  assumes "put_raid_cache E d b buf s = Some (rc, s')"
  shows "\<exists>tr. bus_log s' = bus_log s @ tr \<and> list_all (is_request (RAID_WRITE E)) tr \<and>
           (rc = 0 \<longrightarrow> list_all status_ok tr)"
  using assms unfolding put_raid_cache_def
  by (auto simp: Let_def count_insert_def alloc_queue_node_def
      split: option.splits prod.splits if_splits Option.bind_splits
      dest!: set_queue_node_log set_hash_node_log insert_in_queue_log update_block_in_queue_log)

lemma get_raid_cache_log: "get_raid_cache d b s = Some (r, s') \<Longrightarrow> bus_log s' = bus_log s"
  unfolding get_raid_cache_def
  by (auto simp: Let_def split: option.splits prod.splits if_splits Option.bind_splits)

lemma sound_from_append:
  "bus_log s' = bus_log s @ tr \<Longrightarrow> list_all P tr \<Longrightarrow> sound_from P n s' = sound_from P n s"
  by (auto simp: sound_from_def list_all_iff dest: in_set_dropD)

lemma sound_from_same: "bus_log s' = bus_log s \<Longrightarrow> sound_from P n s' = sound_from P n s"
  by (simp add: sound_from_def)

lemma sound_from_new_log:
  "bus_log s' = bus_log s @ tr \<Longrightarrow> sound_from P (length (bus_log s)) s' = list_all P (new_log s s')"
  by (simp add: sound_from_def new_log_def)

lemma sound_from_start: "sound_from P (length (bus_log s)) s"
  by (simp add: sound_from_def)

lemma put_raid_cache_sound:
  "put_raid_cache E d b buf s = Some (0, s') \<Longrightarrow>
     sound_from status_ok n s' = sound_from status_ok n s"
proof -
  assume "put_raid_cache E d b buf s = Some (0, s')"
  from put_raid_cache_log[OF this] obtain tr where
    "bus_log s' = bus_log s @ tr" "list_all status_ok tr" by auto
  then show ?thesis by (rule sound_from_append)
qed

lemma put_raid_cache_sound_write:
  "put_raid_cache E d b buf s = Some (rc, s') \<Longrightarrow>
     sound_from (\<lambda>e. status_ok e \<or> is_request (RAID_WRITE E) e) n s' =
     sound_from (\<lambda>e. status_ok e \<or> is_request (RAID_WRITE E) e) n s"
proof -
  assume "put_raid_cache E d b buf s = Some (rc, s')"
  from put_raid_cache_log[OF this] obtain tr where
    "bus_log s' = bus_log s @ tr" "list_all (is_request (RAID_WRITE E)) tr" by auto
  then show ?thesis by (intro sound_from_append) (auto simp: list_all_iff)
qed

lemma get_raid_cache_sound:
  "get_raid_cache d b s = Some (r, s') \<Longrightarrow> sound_from P n s' = sound_from P n s"
  by (drule get_raid_cache_log) (rule sound_from_same)

lemma RAID_scheduler_log: "RAID_scheduler p s = (r, s') \<Longrightarrow> bus_log s' = bus_log s"
  by (auto simp: RAID_scheduler_def split: if_splits)

lemma bump_log: "bump_last_block_added d s = Some s' \<Longrightarrow> bus_log s' = bus_log s"
  by (auto simp: bump_last_block_added_def split: if_splits)

lemma write_new_block_sound:
  "write_new_block E tag bnum buf s = Some (0, s') \<Longrightarrow>
     sound_from status_ok n s' = sound_from status_ok n s"
  unfolding write_new_block_def
  by (auto simp: Let_def set_tag_def sound_from_def
      split: option.splits prod.splits if_splits Option.bind_splits
      dest!: put_raid_cache_sound[unfolded sound_from_def] RAID_scheduler_log bump_log)

lemma write_old_block_sound:
  "write_old_block E tag bnum buf s = Some (0, s') \<Longrightarrow>
     sound_from status_ok n s' = sound_from status_ok n s"
  unfolding write_old_block_def
  by (auto simp: Let_def 
      split: option.splits prod.splits if_splits Option.bind_splits
      dest!: put_raid_cache_sound)


lemma tagline_write1_sound:
  "tagline_write1 E tag bnum buf s = Some (0, s') \<Longrightarrow>
     sound_from status_ok n s' = sound_from status_ok n s"
  unfolding tagline_write1_def
  by (auto split: Option.bind_splits if_splits prod.splits
      dest!: write_new_block_sound write_old_block_sound)

lemma write_loop_sound:
  "write_loop E tag bnum k i buf s = Some (0, s') \<Longrightarrow>
     sound_from status_ok n s' = sound_from status_ok n s"
  by (induction k arbitrary: i s)
    (auto split: Option.bind_splits prod.splits if_splits dest!: tagline_write1_sound)

lemma tagline_write_sound:
  "tagline_write E tag bnum blks buf s = Some (0, s') \<Longrightarrow>
     sound_from status_ok n s' = sound_from status_ok n s"
  by (auto simp: tagline_write_def split: if_splits
      dest!: write_loop_sound tagline_write1_sound)

lemma client_sound:
  "client_raid_bus_request E op buf s = (r, p, s') \<Longrightarrow> P (op, r) \<Longrightarrow>
     sound_from P n s' = sound_from P n s"
  by (drule client_log) (rule sound_from_append, assumption, simp)

lemma recover_from_sound:
  "recover_from E a l c br s = Some (0, br', s') \<Longrightarrow>
     sound_from status_ok n s' = sound_from status_ok n s"
  unfolding recover_from_def
  by (auto simp: Let_def status_ok_def
      split: option.splits prod.splits if_splits Option.bind_splits
      dest!: get_raid_cache_sound[where P=status_ok] put_raid_cache_sound
        client_sound[where P=status_ok])

lemma recover_block_sound:
  "recover_block E d cb br s = Some (0, br', s') \<Longrightarrow>
     sound_from status_ok n s' = sound_from status_ok n s"
  unfolding recover_block_def
  by (auto split: if_splits Option.bind_splits dest!: recover_from_sound)

lemma recover_blocks_sound:
  "recover_blocks E d cbs br s = Some (0, br', s') \<Longrightarrow>
     sound_from status_ok n s' = sound_from status_ok n s"
  by (induction cbs arbitrary: br s)
    (auto split: Option.bind_splits prod.splits if_splits dest!: recover_block_sound)

lemma signal_disk_sound:
  "signal_disk E d br s = Some (0, br', s') \<Longrightarrow>
     sound_from status_ok n s' = sound_from status_ok n s"
  unfolding signal_disk_def
  by (auto simp: Let_def status_ok_def split: prod.splits if_splits
      dest!: client_sound[where P=status_ok] recover_blocks_sound)

lemma signal_disks_sound:
  "signal_disks E d k br s = Some (0, s') \<Longrightarrow>
     sound_from status_ok n s' = sound_from status_ok n s"
  by (induction k arbitrary: d br s)
    (auto split: Option.bind_splits prod.splits if_splits dest!: signal_disk_sound)

lemma raid_disk_signal_sound:
  "raid_disk_signal E s = Some (0, s') \<Longrightarrow>
     sound_from status_ok n s' = sound_from status_ok n s"
  by (auto simp: raid_disk_signal_def split: if_splits dest!: signal_disks_sound)

lemma tagline_read1_sound:
  "tagline_read1 E t b buf s = Some (0, d, s') \<Longrightarrow>
     sound_from (\<lambda>e. status_ok e \<or> is_request (RAID_WRITE E) e) n s' =
     sound_from (\<lambda>e. status_ok e \<or> is_request (RAID_WRITE E) e) n s"
  unfolding tagline_read1_def
  by (auto simp: Let_def status_ok_def
      split: option.splits prod.splits if_splits Option.bind_splits
      dest!: get_raid_cache_sound[where P="\<lambda>e. status_ok e \<or> is_request (RAID_WRITE E) e"]
        put_raid_cache_sound_write
        client_sound[where P="\<lambda>e. status_ok e \<or> is_request (RAID_WRITE E) e"])

lemma read_loop_sound:
  "read_loop E t b k i buf s = Some (0, buf', s') \<Longrightarrow>
     sound_from (\<lambda>e. status_ok e \<or> is_request (RAID_WRITE E) e) n s' =
     sound_from (\<lambda>e. status_ok e \<or> is_request (RAID_WRITE E) e) n s"
  by (induction k arbitrary: i buf s)
    (auto split: Option.bind_splits prod.splits if_splits dest!: tagline_read1_sound)

lemma tagline_read_sound:
  "tagline_read E t b blks buf s = Some (0, buf', s') \<Longrightarrow>
     sound_from (\<lambda>e. status_ok e \<or> is_request (RAID_WRITE E) e) n s' =
     sound_from (\<lambda>e. status_ok e \<or> is_request (RAID_WRITE E) e) n s"
  by (auto simp: tagline_read_def split: if_splits
      dest!: read_loop_sound tagline_read1_sound)

lemma checked_generate:
  "reserved r = 0 \<Longrightarrow> status r = 0 \<Longrightarrow>
     checked (generate_RAIDOpCode r, x) = (check_response r (decode_RAIDOpCode x) = 0)"
  by (simp add: checked_def decode_generate_plain)

lemma format_disks_sound:
  "format_disks E d k s = (0, s') \<Longrightarrow> sound_from checked n s' = sound_from checked n s"
  by (induction k arbitrary: d s)
    (auto simp: Let_def checked_generate split: prod.splits if_splits
      dest!: client_sound[where P=checked])

lemma add_tags_log: "bus_log (snd (add_tags k s)) = bus_log s"
  by (induction k arbitrary: s) (simp_all add: add_new_tag_def)

lemma tagline_driver_init_sound:
  assumes "tagline_driver_init E maxlines s = Some (0, s')"
  shows "sound_from checked n s' = sound_from checked n s"
proof -
  define s1 where "s1 = s\<lparr>containers := True, capacity := 0, back_ptr := None, front_ptr := None,
            max_cache_size := TAGLINE_CACHE_SIZE E\<rparr>"
  have i: "init_raid_cache (TAGLINE_CACHE_SIZE E) (s\<lparr>containers := True\<rparr>) = (0, s1)"
    by (simp add: init_raid_cache_def s1_def)
  define init where "init = \<lparr> request_type = RAID_INIT E,
      number_of_blocks = of_nat ((RAID_DISKS * RAID_DISKBLOCKS) div RAID_TRACK_BLOCKS E),
      disk_number = of_nat RAID_DISKS, reserved = 0, status = 0, blockid = 0 \<rparr>"
  obtain r p s2 where c: "client_raid_bus_request E (generate_RAIDOpCode init) None s1 = (r, p, s2)"
    by (metis prod_cases3)
  obtain rc3 s3 where f: "format_disks E 0 RAID_DISKS s2 = (rc3, s3)" by (metis prod.collapse)
  have unf: "tagline_driver_init E maxlines s =
      (if RAID_TRACK_BLOCKS E = 0 then None
       else if check_response init (decode_RAIDOpCode r) \<noteq> 0 then Some (-1, s2)
       else if rc3 \<noteq> 0 then Some (-1, s3)
       else Some (0, snd (add_tags (unat maxlines) s3)))"
    unfolding tagline_driver_init_def Let_def i init_def[symmetric]
    using add_tags_rc[of "unat maxlines" s3]
    by (auto simp: c f split: prod.splits)
  from assms[unfolded unf] have chk: "check_response init (decode_RAIDOpCode r) = 0"
    and rc3: "rc3 = 0" and s': "s' = snd (add_tags (unat maxlines) s3)"
    by (auto split: if_splits)
  have "checked (generate_RAIDOpCode init, r)"
    using chk by (simp add: checked_generate init_def)
  from client_sound[OF c, of checked, OF this]
  have 2: "sound_from checked n s2 = sound_from checked n s1" .
  have 3: "sound_from checked n s3 = sound_from checked n s2"
    using f rc3 by (auto dest: format_disks_sound)
  have 1: "sound_from checked n s1 = sound_from checked n s"
    by (simp add: sound_from_def s1_def)
  have 4: "sound_from checked n s' = sound_from checked n s3"
    by (simp add: sound_from_def s' add_tags_log)
  show ?thesis by (simp add: 1 2 3 4)
qed

lemma free_hash_nodes_log: "free_hash_nodes ch s = Some s' \<Longrightarrow> bus_log s' = bus_log s"
  by (induction ch arbitrary: s s')
    (auto split: Option.bind_splits option.splits)

lemma free_hash_nodes_containers: "free_hash_nodes ch s = Some s' \<Longrightarrow> containers s' = containers s"
  by (induction ch arbitrary: s s')
    (auto split: Option.bind_splits option.splits)

lemma free_buckets_log: "free_buckets e k s = Some s' \<Longrightarrow> bus_log s' = bus_log s"
  by (induction k arbitrary: e s)
    (auto split: Option.bind_splits dest!: free_hash_nodes_log)

lemma tagline_close_sound:
  assumes "tagline_close E s = Some (0, b, l)"
  shows "list_all checked (drop (length (bus_log s)) l)"
  using assms unfolding tagline_close_def close_raid_cache_def
  by (auto simp: Let_def checked_generate
      split: Option.bind_splits prod.splits if_splits
      dest!: free_buckets_log client_log)


section \<open>What the functions add to the history of the cache\<close>

lemma set_queue_node_puts: "set_queue_node p f s = Some s' \<Longrightarrow> put_log s' = put_log s"
  by (auto simp: set_queue_node_def split: option.splits)

lemma set_hash_node_puts: "set_hash_node h f s = Some s' \<Longrightarrow> put_log s' = put_log s"
  by (auto simp: set_hash_node_def split: if_splits)

lemma client_puts:
  "client_raid_bus_request E op buf s = (r, p, s') \<Longrightarrow> put_log s' = put_log s"
  by (auto simp: client_raid_bus_request_def split: prod.splits)

lemma evict_lru_puts: "evict_lru E s = Some (rc, s') \<Longrightarrow> put_log s' = put_log s"
  unfolding evict_lru_def
  by (auto simp: Let_def split: option.splits prod.splits if_splits Option.bind_splits
      dest!: set_queue_node_puts set_hash_node_puts client_puts)

lemma insert_in_queue_puts: "insert_in_queue E q s = Some (rc, s') \<Longrightarrow> put_log s' = put_log s"
  unfolding insert_in_queue_def
  by (auto simp: Let_def split: option.splits prod.splits if_splits Option.bind_splits
      dest!: set_queue_node_puts evict_lru_puts)

lemma update_block_in_queue_puts:
  "update_block_in_queue q s = Some (rc, s') \<Longrightarrow> put_log s' = put_log s"
  unfolding update_block_in_queue_def
  by (auto simp: Let_def split: option.splits prod.splits if_splits Option.bind_splits
      dest!: set_queue_node_puts)

lemma put_raid_cache_puts:
  assumes "put_raid_cache E d b buf s = Some (rc, s')"
  shows "put_log s' = put_log s @ [(length (bus_log s), d, b, buf)]"
  using assms unfolding put_raid_cache_def
  by (auto simp: Let_def count_insert_def alloc_queue_node_def
      split: option.splits prod.splits if_splits Option.bind_splits
      dest!: set_queue_node_puts set_hash_node_puts insert_in_queue_puts
        update_block_in_queue_puts)

lemma get_raid_cache_puts: "get_raid_cache d b s = Some (r, s') \<Longrightarrow> put_log s' = put_log s"
  unfolding get_raid_cache_def
  by (auto simp: Let_def split: option.splits prod.splits if_splits Option.bind_splits)










section \<open>A block count of zero\<close>









section \<open>Which responses are validated\<close>

lemma mangle_echoes: "echoes_setup mangle_env"
  by (simp add: echoes_setup_def mangle_env_def decode_generate_plain Let_def)

lemma signal_disks_numeral:
  "signal_disks E d (numeral k) br s = do {
     (rc, buf_read', s1) \<leftarrow> signal_disk E (of_nat d) br s;
     if rc \<noteq> 0 then Some (-1, s1) else signal_disks E (Suc d) (pred_numeral k) buf_read' s1
   }"
  by (simp add: numeral_eq_Suc)

lemma free_buckets_add:
  "free_buckets e (k1 + k2) s = free_buckets e k1 s \<bind> free_buckets (e + k1) k2"
  by (induction k1 arbitrary: e s) (auto split: Option.bind_splits)

lemma free_buckets_add_bind:
  "(free_buckets e (k1 + k2) s \<bind> f) =
   free_buckets e k1 s \<bind> (\<lambda>s1. free_buckets (e + k1) k2 s1 \<bind> f)"
  by (simp add: free_buckets_add)

lemma free_buckets_empty:
  "(\<And>h. e \<le> h \<Longrightarrow> h < e + k \<Longrightarrow> hashtable s h = []) \<Longrightarrow> free_buckets e k s = Some s"
  by (induction k arbitrary: e) simp_all

text \<open>
  C7 (amended).  The responses to the requests of a successful call, by the call:
  \<^verbatim>\<open>tagline_driver_init\<close> (INIT and FORMAT) and \<^verbatim>\<open>tagline_close\<close> (CLOSE) accept a response
  only if it passes \<^verbatim>\<open>check_response\<close> (request type, number of blocks, disk number and
  block id echoed, status bit 0).  \<^verbatim>\<open>tagline_write\<close> (the WRITE requests of the cache's
  evictions) and \<^verbatim>\<open>raid_disk_signal\<close> (STATUS, FORMAT, READ and WRITE) test the status bit
  of the response only, and so does \<^verbatim>\<open>tagline_read\<close> with the responses to its READ
  requests.
\<close>

theorem responses_validated:
  "(tagline_driver_init E maxlines si = Some (0, si') \<longrightarrow>
      list_all checked (new_log si si')) \<and>
   (tagline_close E sc = Some (0, b, l) \<longrightarrow>
      list_all checked (drop (length (bus_log sc)) l)) \<and>
   (tagline_write E tw bw nw bufw sw = Some (0, sw') \<longrightarrow>
      list_all status_ok (new_log sw sw')) \<and>
   (raid_disk_signal E sg = Some (0, sg') \<longrightarrow>
      list_all status_ok (new_log sg sg')) \<and>
   (RAID_READ E \<noteq> RAID_WRITE E \<and> tagline_read E tr br nr bufr sr = Some (0, bufr', sr') \<longrightarrow>
      list_all (\<lambda>e. is_request (RAID_READ E) e \<longrightarrow> status_ok e) (new_log sr sr'))"
proof (intro conjI impI)
  assume "tagline_driver_init E maxlines si = Some (0, si')"
  from tagline_driver_init_sound[OF this, of "length (bus_log si)"]
  show "list_all checked (new_log si si')"
    by (simp add: sound_from_def new_log_def)
next
  assume "tagline_close E sc = Some (0, b, l)"
  then show "list_all checked (drop (length (bus_log sc)) l)"
    by (rule tagline_close_sound)
next
  assume "tagline_write E tw bw nw bufw sw = Some (0, sw')"
  from tagline_write_sound[OF this, of "length (bus_log sw)"]
  show "list_all status_ok (new_log sw sw')"
    by (simp add: sound_from_def new_log_def)
next
  assume "raid_disk_signal E sg = Some (0, sg')"
  from raid_disk_signal_sound[OF this, of "length (bus_log sg)"]
  show "list_all status_ok (new_log sg sg')"
    by (simp add: sound_from_def new_log_def)
next
  assume a: "RAID_READ E \<noteq> RAID_WRITE E \<and>
    tagline_read E tr br nr bufr sr = Some (0, bufr', sr')"
  from tagline_read_sound[OF a[THEN conjunct2], of "length (bus_log sr)"]
  have "list_all (\<lambda>e. status_ok e \<or> is_request (RAID_WRITE E) e) (new_log sr sr')"
    by (simp add: sound_from_def new_log_def)
  with a show "list_all (\<lambda>e. is_request (RAID_READ E) e \<longrightarrow> status_ok e) (new_log sr sr')"
    by (auto simp: list_all_iff is_request_def)
qed

theorem responses_validated_witness:
  "\<exists>s0 s1 s2 s3 buf' s4 b l.
     tagline_driver_init (echo_env 2) 1 (initial_state ()) = Some (0, s0) \<and>
     list_all checked (new_log (initial_state ()) s0) \<and>
     tagline_write (echo_env 2) 0 0 1 (\<lambda>_. [1]) s0 = Some (0, s1) \<and>
     tagline_write (echo_env 2) 0 1 1 (\<lambda>_. [2]) s1 = Some (0, s2) \<and>
     length (new_log s1 s2) = 2 \<and>
     list_all status_ok (new_log s1 s2) \<and>
     RAID_READ (echo_env 2) \<noteq> RAID_WRITE (echo_env 2) \<and>
     tagline_read (echo_env 2) 0 0 1 (\<lambda>_. [9]) s2 = Some (0, buf', s3) \<and>
     map (\<lambda>e. request_type (decode_RAIDOpCode (fst e))) (new_log s2 s3) = [2, 3] \<and>
     list_all (\<lambda>e. is_request (RAID_READ (echo_env 2)) e \<longrightarrow> status_ok e) (new_log s2 s3) \<and>
     raid_disk_signal (echo_env 2) s1 = Some (0, s4) \<and>
     length (new_log s1 s4) = 9 \<and>
     list_all status_ok (new_log s1 s4) \<and>
     tagline_close (echo_env 2) s1 = Some (0, b, l) \<and>
     length (drop (length (bus_log s1)) l) = 1 \<and>
     list_all checked (drop (length (bus_log s1)) l)"
proof -
  obtain s0 where i: "tagline_driver_init (echo_env 2) 1 (initial_state ()) = Some (0, s0)"
    using tagline_driver_init_echo by blast
  from echo_init_state[OF i] obtain l0 where s0: "s0 = (initial_state ())\<lparr>max_cache_size := 2,
      head_tag := [\<lparr>tagline = 0, max_start_allowed = 0, blocks_in_tagline = 0, block_0 = []\<rparr>],
      taglines_in_use := 1, containers := True, bus_log := l0\<rparr>"
    by blast
  have "\<exists>s1 s2 buf' s3. tagline_write (echo_env 2) 0 0 1 (\<lambda>_. [1]) s0 = Some (0, s1) \<and>
      tagline_write (echo_env 2) 0 1 1 (\<lambda>_. [2]) s1 = Some (0, s2) \<and>
      length (new_log s1 s2) = 2 \<and>
      tagline_read (echo_env 2) 0 0 1 (\<lambda>_. [9]) s2 = Some (0, buf', s3) \<and>
      map (\<lambda>e. request_type (decode_RAIDOpCode (fst e))) (new_log s2 s3) = [2, 3]"
    unfolding s0
    by (simp add: initial_state_def echo_env_def cache_defs driver_defs Let_def
        decode_generate_plain new_log_def)
  then obtain s1 s2 buf' s3 where
    w1: "tagline_write (echo_env 2) 0 0 1 (\<lambda>_. [1]) s0 = Some (0, s1)" and
    w2: "tagline_write (echo_env 2) 0 1 1 (\<lambda>_. [2]) s1 = Some (0, s2)" and
    n2: "length (new_log s1 s2) = 2" and
    r: "tagline_read (echo_env 2) 0 0 1 (\<lambda>_. [9]) s2 = Some (0, buf', s3)" and
    n3: "map (\<lambda>e. request_type (decode_RAIDOpCode (fst e))) (new_log s2 s3) = [2, 3]"
    by (elim exE conjE)
  have "\<exists>s1 s4. tagline_write (echo_env 2) 0 0 1 (\<lambda>_. [1]) s0 = Some (0, s1) \<and>
      raid_disk_signal (echo_env 2) s1 = Some (0, s4) \<and> length (new_log s1 s4) = 9"
    unfolding s0
    by (simp add: initial_state_def echo_env_def cache_defs driver_defs Let_def
        decode_generate_plain raid_disk_signal_def signal_disks_numeral signal_disk_def
        new_log_def)
  with w1 obtain s4 where g: "raid_disk_signal (echo_env 2) s1 = Some (0, s4)"
    and n4: "length (new_log s1 s4) = 9"
    by auto
  have e: "(8192::nat) = 1 + (1807 + (1 + 6383))"
    by simp
  have "\<exists>s1 b l. tagline_write (echo_env 2) 0 0 1 (\<lambda>_. [1]) s0 = Some (0, s1) \<and>
      tagline_close (echo_env 2) s1 = Some (0, b, l) \<and>
      length (drop (length (bus_log s1)) l) = 1"
    unfolding s0
    apply (simp add: initial_state_def echo_env_def cache_defs driver_defs Let_def
        decode_generate_plain tagline_close_def close_raid_cache_def check_response_def)
    apply (subst e)
    apply (simp only: free_buckets_add_bind)
    apply (simp add: free_buckets_empty echo_env_def cache_defs driver_defs Let_def
        decode_generate_plain check_response_def)
    done
  with w1 obtain b l where c: "tagline_close (echo_env 2) s1 = Some (0, b, l)"
    and n5: "length (drop (length (bus_log s1)) l) = 1"
    by auto
  have d: "RAID_READ (echo_env 2) \<noteq> RAID_WRITE (echo_env 2)"
    by (simp add: echo_env_def)
  note v = responses_validated[where E = "echo_env 2" and maxlines = 1
      and si = "initial_state ()" and si' = s0 and sc = s1 and b = b and l = l
      and tw = 0 and bw = 1 and nw = 1 and bufw = "\<lambda>_. [2]" and sw = s1 and sw' = s2
      and sg = s1 and sg' = s4
      and tr = 0 and br = 0 and nr = 1 and bufr = "\<lambda>_. [9]" and bufr' = buf'
      and sr = s2 and sr' = s3]
  from v i have 1: "list_all checked (new_log (initial_state ()) s0)" by simp
  from v w2 have 2: "list_all status_ok (new_log s1 s2)" by simp
  from v d r have 3: "list_all (\<lambda>e. is_request (RAID_READ (echo_env 2)) e \<longrightarrow> status_ok e)
      (new_log s2 s3)" by simp
  from v g have 4: "list_all status_ok (new_log s1 s4)" by simp
  from v c have 5: "list_all checked (drop (length (bus_log s1)) l)" by simp
  from i 1 w1 w2 n2 2 d r n3 3 g n4 4 c n5 5 show ?thesis
    by (intro exI[of _ s0] exI[of _ s1] exI[of _ s2] exI[of _ s3] exI[of _ buf'] exI[of _ s4]
        exI[of _ b] exI[of _ l] conjI)
qed

theorem responses_validated_counterexample:
  "\<exists>s0 s1 s2 buf' s3 s4.
     tagline_driver_init mangle_env 1 (initial_state ()) = Some (0, s0) \<and>
     tagline_write mangle_env 0 0 1 (\<lambda>_. [1]) s0 = Some (0, s1) \<and>
     tagline_write mangle_env 0 1 1 (\<lambda>_. [2]) s1 = Some (0, s2) \<and>
     tagline_read mangle_env 0 0 1 (\<lambda>_. [9]) s2 = Some (0, buf', s3) \<and>
     raid_disk_signal mangle_env s3 = Some (0, s4) \<and>
     list_all (\<lambda>e. \<not> checked e) (new_log s1 s2) \<and> new_log s1 s2 \<noteq> [] \<and>
     list_all (\<lambda>e. \<not> checked e) (new_log s2 s3) \<and> new_log s2 s3 \<noteq> [] \<and>
     list_all (\<lambda>e. \<not> checked e) (new_log s3 s4) \<and> new_log s3 s4 \<noteq> []"
proof -
  obtain s0 where i: "tagline_driver_init mangle_env 1 (initial_state ()) = Some (0, s0)"
    using tagline_driver_init_accept[OF mangle_echoes] by blast
  from unit_init_state[OF i] obtain l0 where s0: "s0 = (initial_state ())\<lparr>max_cache_size := 2,
      head_tag := [\<lparr>tagline = 0, max_start_allowed = 0, blocks_in_tagline = 0, block_0 = []\<rparr>],
      taglines_in_use := 1, containers := True, bus_log := l0\<rparr>"
    by (auto simp: mangle_env_def)
  have "\<exists>s1 s2 buf' s3 s4.
     tagline_write mangle_env 0 0 1 (\<lambda>_. [1]) s0 = Some (0, s1) \<and>
     tagline_write mangle_env 0 1 1 (\<lambda>_. [2]) s1 = Some (0, s2) \<and>
     tagline_read mangle_env 0 0 1 (\<lambda>_. [9]) s2 = Some (0, buf', s3) \<and>
     raid_disk_signal mangle_env s3 = Some (0, s4) \<and>
     list_all (\<lambda>e. \<not> checked e) (new_log s1 s2) \<and> new_log s1 s2 \<noteq> [] \<and>
     list_all (\<lambda>e. \<not> checked e) (new_log s2 s3) \<and> new_log s2 s3 \<noteq> [] \<and>
     list_all (\<lambda>e. \<not> checked e) (new_log s3 s4) \<and> new_log s3 s4 \<noteq> []"
    unfolding s0
    by (simp add: initial_state_def mangle_env_def cache_defs driver_defs Let_def
        decode_generate_plain new_log_def checked_def check_response_def
        raid_disk_signal_def signal_disks_numeral signal_disk_def)
  with i show ?thesis
    by blast
qed

section \<open>The order of the requests of the recovery\<close>

lemma rebuild_write: "list_all (is_request (RAID_WRITE E)) tr \<Longrightarrow> list_all (rebuild_entry E) tr"
  by (simp add: list_all_iff rebuild_entry_def)

lemma recover_from_log:
  "recover_from E a l c br s = Some (rc, br', s') \<Longrightarrow>
     \<exists>tr. bus_log s' = bus_log s @ tr \<and> list_all (rebuild_entry E) tr"
  unfolding recover_from_def
  by (auto simp: Let_def rebuild_entry_def is_request_generate list_all_iff
      split: option.splits prod.splits if_splits Option.bind_splits
      dest!: get_raid_cache_log put_raid_cache_log client_log)

lemma recover_block_log:
  "recover_block E d cb br s = Some (rc, br', s') \<Longrightarrow>
     \<exists>tr. bus_log s' = bus_log s @ tr \<and> list_all (rebuild_entry E) tr"
  unfolding recover_block_def
  by (auto split: if_splits Option.bind_splits dest!: recover_from_log)

lemma recover_blocks_log:
  "recover_blocks E d cbs br s = Some (rc, br', s') \<Longrightarrow>
     \<exists>tr. bus_log s' = bus_log s @ tr \<and> list_all (rebuild_entry E) tr"
proof (induction cbs arbitrary: br s)
  case Nil
  then show ?case by simp
next
  case (Cons cb cbs)
  from Cons.prems obtain rc1 br1 s1 where
    1: "recover_block E d cb br s = Some (rc1, br1, s1)" and
    2: "rc1 \<noteq> 0 \<and> s' = s1 \<or> recover_blocks E d cbs br1 s1 = Some (rc, br', s')"
    by (auto split: Option.bind_splits prod.splits if_splits)
  from recover_block_log[OF 1] obtain t1 where
    t1: "bus_log s1 = bus_log s @ t1" "list_all (rebuild_entry E) t1" by blast
  from 2 show ?case
  proof
    assume "rc1 \<noteq> 0 \<and> s' = s1"
    with t1 show ?thesis by blast
  next
    assume "recover_blocks E d cbs br1 s1 = Some (rc, br', s')"
    from Cons.IH[OF this] obtain t2 where
      "bus_log s' = bus_log s1 @ t2" "list_all (rebuild_entry E) t2" by blast
    with t1 have "bus_log s' = bus_log s @ (t1 @ t2)" "list_all (rebuild_entry E) (t1 @ t2)"
      by simp_all
    then show ?thesis by blast
  qed
qed

lemma signal_disk_log:
  assumes "signal_disk E d br s = Some (rc, br', s')"
  shows "\<exists>seg. bus_log s' = bus_log s @ seg \<and> disk_segment E d seg"
proof -
  obtain r p s1 where c: "client_raid_bus_request E (status_request E d) None s = (r, p, s1)"
    by (metis prod_cases3)
  from client_log[OF c] have l1: "bus_log s1 = bus_log s @ [(status_request E d, r)]" .
  show ?thesis
  proof (cases "status (decode_RAIDOpCode r) = 0 \<and> blockid (decode_RAIDOpCode r) = 2")
    case False
    with assms c have "s' = s1"
      by (auto simp: signal_disk_def Let_def status_request_def split: if_splits)
    with l1 False show ?thesis
      by (auto simp: disk_segment_def)
  next
    case True
    obtain r2 p2 s2 where c2: "client_raid_bus_request E (format_request E d) None s1 = (r2, p2, s2)"
      by (metis prod_cases3)
    from client_log[OF c2] have l2: "bus_log s2 = bus_log s1 @ [(format_request E d, r2)]" .
    from assms c c2 True have
      "s' = s2 \<or> recover_blocks E d (concat (map block_0 (head_tag s2))) br s2 = Some (rc, br', s')"
      by (auto simp: signal_disk_def Let_def status_request_def format_request_def split: if_splits)
    then obtain tr where "bus_log s' = bus_log s2 @ tr" "list_all (rebuild_entry E) tr"
      by (auto dest!: recover_blocks_log)
    with l1 l2 True show ?thesis
      by (auto simp: disk_segment_def)
  qed
qed

lemma signal_disks_log:
  "signal_disks E d k br s = Some (rc, s') \<Longrightarrow>
     \<exists>segs. bus_log s' = bus_log s @ concat segs \<and> length segs \<le> k \<and>
       (rc = 0 \<longrightarrow> length segs = k) \<and>
       (\<forall>i<length segs. disk_segment E (of_nat (d + i)) (segs ! i))"
proof (induction k arbitrary: d br s)
  case 0
  then show ?case by simp
next
  case (Suc k)
  from Suc.prems obtain rc1 br1 s1 where
    1: "signal_disk E (of_nat d) br s = Some (rc1, br1, s1)" and
    2: "rc1 \<noteq> 0 \<and> s' = s1 \<and> rc = -1 \<or> signal_disks E (Suc d) k br1 s1 = Some (rc, s')"
    by (auto split: Option.bind_splits prod.splits if_splits)
  from signal_disk_log[OF 1] obtain seg where
    seg: "bus_log s1 = bus_log s @ seg" "disk_segment E (of_nat d) seg" by blast
  from 2 show ?case
  proof
    assume a: "rc1 \<noteq> 0 \<and> s' = s1 \<and> rc = -1"
    have "bus_log s' = bus_log s @ concat [seg] \<and> length [seg] \<le> Suc k \<and>
       (rc = 0 \<longrightarrow> length [seg] = Suc k) \<and>
       (\<forall>i<length [seg]. disk_segment E (of_nat (d + i)) ([seg] ! i))"
      using a seg by simp
    then show ?thesis by blast
  next
    assume "signal_disks E (Suc d) k br1 s1 = Some (rc, s')"
    from Suc.IH[OF this] obtain segs where
      segs: "bus_log s' = bus_log s1 @ concat segs" "length segs \<le> k"
        "rc = 0 \<longrightarrow> length segs = k"
        "\<forall>i<length segs. disk_segment E (of_nat (Suc d + i)) (segs ! i)" by blast
    have "\<forall>i<length (seg # segs). disk_segment E (of_nat (d + i)) ((seg # segs) ! i)"
    proof (intro allI impI)
      fix i assume "i < length (seg # segs)"
      then show "disk_segment E (of_nat (d + i)) ((seg # segs) ! i)"
        using seg(2) segs(4) by (cases i) auto
    qed
    with seg segs have "bus_log s' = bus_log s @ concat (seg # segs) \<and> length (seg # segs) \<le> Suc k \<and>
       (rc = 0 \<longrightarrow> length (seg # segs) = Suc k) \<and>
       (\<forall>i<length (seg # segs). disk_segment E (of_nat (d + i)) ((seg # segs) ! i))"
      by simp
    then show ?thesis by blast
  qed
qed

lemma formatted_before_mono:
  assumes "formatted_before E log start p" "start' \<le> start"
  shows "formatted_before E (log @ tr) start' p"
proof -
  from assms(1) obtain i where i: "start \<le> i" "i < fst p" "i < length log"
    "fst (log ! i) = format_request E (fst (snd p))" "status_ok (log ! i)"
    by (auto simp: formatted_before_def list_ex_iff)
  then have "i \<in> set [start' ..< min (fst p) (length (log @ tr))]"
    using assms(2) by auto
  moreover have "(log @ tr) ! i = log ! i" using i(3) by (simp add: nth_append)
  ultimately show ?thesis using i(4,5)
    unfolding formatted_before_def list_ex_iff by metis
qed

lemma recover_from_puts:
  "recover_from E a l c br s = Some (rc, br', s') \<Longrightarrow>
     \<exists>ps. put_log s' = put_log s @ ps \<and>
       list_all (\<lambda>p. fst (snd p) = fst l \<and> length (bus_log s) \<le> fst p) ps"
proof -
  assume a: "recover_from E a l c br s = Some (rc, br', s')"
  then obtain r s1 where g: "get_raid_cache (fst a) (snd a) s = Some (r, s1)"
    by (auto simp: recover_from_def split: Option.bind_splits)
  note g1 = get_raid_cache_log[OF g] get_raid_cache_puts[OF g]
  show ?thesis
  proof (cases r)
    case (Some d)
    with a g obtain rc2 where "put_raid_cache E (fst l) (snd l) d s1 = Some (rc2, s')"
      by (auto simp: recover_from_def Let_def split: Option.bind_splits if_splits)
    from put_raid_cache_puts[OF this] g1 show ?thesis by simp
  next
    case None
    obtain rr pp s2 where c: "client_raid_bus_request E (generate_RAIDOpCode
        \<lparr> request_type = RAID_READ E, number_of_blocks = 1, disk_number = fst a, reserved = 0,
          status = 0, blockid = snd a \<rparr>) (Some br) s1 = (rr, pp, s2)"
      by (metis prod_cases3)
    note c1 = client_log[OF c] client_puts[OF c]
    from a g None c have "s' = s2 \<or>
        (\<exists>rc2. put_raid_cache E (fst l) (snd l) (received pp br) s2 = Some (rc2, s'))"
      by (auto simp: recover_from_def Let_def split: Option.bind_splits if_splits)
    then show ?thesis
    proof
      assume "s' = s2"
      with c1 g1 show ?thesis by simp
    next
      assume "\<exists>rc2. put_raid_cache E (fst l) (snd l) (received pp br) s2 = Some (rc2, s')"
      then obtain rc2 where "put_raid_cache E (fst l) (snd l) (received pp br) s2 = Some (rc2, s')"
        by blast
      from put_raid_cache_puts[OF this] c1 g1 show ?thesis by simp
    qed
  qed
qed

lemma recover_block_puts:
  "recover_block E d cb br s = Some (rc, br', s') \<Longrightarrow>
     \<exists>ps. put_log s' = put_log s @ ps \<and>
       list_all (\<lambda>p. fst (snd p) = d \<and> length (bus_log s) \<le> fst p) ps"
  unfolding recover_block_def
  by (auto split: if_splits dest!: recover_from_puts)

lemma recover_blocks_puts:
  "recover_blocks E d cbs br s = Some (rc, br', s') \<Longrightarrow>
     \<exists>ps. put_log s' = put_log s @ ps \<and>
       list_all (\<lambda>p. fst (snd p) = d \<and> length (bus_log s) \<le> fst p) ps"
proof (induction cbs arbitrary: br s)
  case Nil
  then show ?case by simp
next
  case (Cons cb cbs)
  from Cons.prems obtain rc1 br1 s1 where
    1: "recover_block E d cb br s = Some (rc1, br1, s1)" and
    2: "rc1 \<noteq> 0 \<and> s' = s1 \<or> recover_blocks E d cbs br1 s1 = Some (rc, br', s')"
    by (auto split: Option.bind_splits prod.splits if_splits)
  from recover_block_puts[OF 1] obtain p1 where
    p1: "put_log s1 = put_log s @ p1"
      "list_all (\<lambda>p. fst (snd p) = d \<and> length (bus_log s) \<le> fst p) p1" by blast
  from recover_block_log[OF 1] have le: "length (bus_log s) \<le> length (bus_log s1)" by auto
  from 2 show ?case
  proof
    assume "rc1 \<noteq> 0 \<and> s' = s1"
    with p1 show ?thesis by blast
  next
    assume "recover_blocks E d cbs br1 s1 = Some (rc, br', s')"
    from Cons.IH[OF this] obtain p2 where
      p2: "put_log s' = put_log s1 @ p2"
        "list_all (\<lambda>p. fst (snd p) = d \<and> length (bus_log s1) \<le> fst p) p2" by blast
    from p2(2) le have "list_all (\<lambda>p. fst (snd p) = d \<and> length (bus_log s) \<le> fst p) p2"
      by (auto simp: list_all_iff)
    with p1 p2(1) have "put_log s' = put_log s @ (p1 @ p2)"
      "list_all (\<lambda>p. fst (snd p) = d \<and> length (bus_log s) \<le> fst p) (p1 @ p2)"
      by simp_all
    then show ?thesis by blast
  qed
qed

lemma signal_disk_puts:
  assumes "signal_disk E d br s = Some (rc, br', s')"
  shows "\<exists>ps. put_log s' = put_log s @ ps \<and>
           list_all (formatted_before E (bus_log s') (length (bus_log s))) ps"
proof -
  obtain r p s1 where c: "client_raid_bus_request E (status_request E d) None s = (r, p, s1)"
    by (metis prod_cases3)
  from client_log[OF c] have l1: "bus_log s1 = bus_log s @ [(status_request E d, r)]" .
  from client_puts[OF c] have q1: "put_log s1 = put_log s" .
  show ?thesis
  proof (cases "status (decode_RAIDOpCode r) = 0 \<and> blockid (decode_RAIDOpCode r) = 2")
    case False
    with assms c have "s' = s1"
      by (auto simp: signal_disk_def Let_def status_request_def split: if_splits)
    with q1 show ?thesis by simp
  next
    case True
    obtain r2 p2 s2 where c2: "client_raid_bus_request E (format_request E d) None s1 = (r2, p2, s2)"
      by (metis prod_cases3)
    from client_log[OF c2] have l2: "bus_log s2 = bus_log s1 @ [(format_request E d, r2)]" .
    from client_puts[OF c2] have q2: "put_log s2 = put_log s1" .
    from assms c c2 True have
      "s' = s2 \<or> (status (decode_RAIDOpCode r2) = 0 \<and>
         recover_blocks E d (concat (map block_0 (head_tag s2))) br s2 = Some (rc, br', s'))"
      by (auto simp: signal_disk_def Let_def status_request_def format_request_def split: if_splits)
    then show ?thesis
    proof
      assume "s' = s2"
      with q1 q2 show ?thesis by simp
    next
      assume a: "status (decode_RAIDOpCode r2) = 0 \<and>
         recover_blocks E d (concat (map block_0 (head_tag s2))) br s2 = Some (rc, br', s')"
      from recover_blocks_puts[OF a[THEN conjunct2]] obtain ps where
        ps: "put_log s' = put_log s2 @ ps"
          "list_all (\<lambda>p. fst (snd p) = d \<and> length (bus_log s2) \<le> fst p) ps" by blast
      from recover_blocks_log[OF a[THEN conjunct2]] obtain tr where
        tr: "bus_log s' = bus_log s2 @ tr" by blast
      have "formatted_before E (bus_log s') (length (bus_log s)) q" if "q \<in> set ps" for q
      proof -
        from that ps(2) have q: "fst (snd q) = d" "length (bus_log s2) \<le> fst q"
          by (auto simp: list_all_iff)
        let ?i = "Suc (length (bus_log s))"
        have i: "?i \<in> set [length (bus_log s) ..< min (fst q) (length (bus_log s'))]"
          using q(2) l1 l2 tr by auto
        have n: "bus_log s' ! ?i = (format_request E d, r2)"
          using l1 l2 tr by (simp add: nth_append)
        have "status_ok (format_request E d, r2)" using a by (simp add: status_ok_def)
        with i n q(1) show ?thesis
          unfolding formatted_before_def list_ex_iff by (intro bexI[of _ ?i]) auto
      qed
      then have "list_all (formatted_before E (bus_log s') (length (bus_log s))) ps"
        by (simp add: list_all_iff)
      with ps(1) q1 q2 show ?thesis by auto
    qed
  qed
qed

lemma signal_disks_puts:
  "signal_disks E d k br s = Some (rc, s') \<Longrightarrow>
     \<exists>ps. put_log s' = put_log s @ ps \<and>
       list_all (formatted_before E (bus_log s') (length (bus_log s))) ps"
proof (induction k arbitrary: d br s)
  case 0
  then show ?case by simp
next
  case (Suc k)
  from Suc.prems obtain rc1 br1 s1 where
    1: "signal_disk E (of_nat d) br s = Some (rc1, br1, s1)" and
    2: "rc1 \<noteq> 0 \<and> s' = s1 \<or> signal_disks E (Suc d) k br1 s1 = Some (rc, s')"
    by (auto split: Option.bind_splits prod.splits if_splits)
  from signal_disk_puts[OF 1] obtain p1 where
    p1: "put_log s1 = put_log s @ p1"
      "list_all (formatted_before E (bus_log s1) (length (bus_log s))) p1" by blast
  from signal_disk_log[OF 1] obtain seg where seg: "bus_log s1 = bus_log s @ seg" by blast
  from 2 show ?case
  proof
    assume "rc1 \<noteq> 0 \<and> s' = s1"
    with p1 show ?thesis by blast
  next
    assume r: "signal_disks E (Suc d) k br1 s1 = Some (rc, s')"
    from Suc.IH[OF r] obtain p2 where
      p2: "put_log s' = put_log s1 @ p2"
        "list_all (formatted_before E (bus_log s') (length (bus_log s1))) p2" by blast
    from signal_disks_log[OF r] obtain segs where
      segs: "bus_log s' = bus_log s1 @ concat segs" by blast
    have a: "list_all (formatted_before E (bus_log s') (length (bus_log s))) p1"
      using p1(2) formatted_before_mono[of E "bus_log s1" "length (bus_log s)" _ "length (bus_log s)" "concat segs"]
      unfolding segs by (auto simp: list_all_iff)
    have b: "list_all (formatted_before E (bus_log s') (length (bus_log s))) p2"
      using p2(2) formatted_before_mono[of E "bus_log s'" "length (bus_log s1)" _ "length (bus_log s)" "[]"]
        seg by (auto simp: list_all_iff)
    from a b p1(1) p2(1) have "put_log s' = put_log s @ (p1 @ p2)"
      "list_all (formatted_before E (bus_log s') (length (bus_log s))) (p1 @ p2)"
      by simp_all
    then show ?thesis by blast
  qed
qed

text \<open>
  C8 (amended).  The bus requests of one call of \<^verbatim>\<open>raid_disk_signal\<close> are, disk after
  disk in the order 0, 1, ..., the requests made for that disk: its STATUS request, and,
  when the response reports the disk as failed, its FORMAT request followed by the READ
  and WRITE requests that the rebuild causes (reads of surviving copies and write-backs
  of evicted cache entries, of any disk).  So the FORMAT of a failed disk precedes the
  STATUS request of every later disk.  A call that returns 0 has gone through all
  \<^verbatim>\<open>RAID_DISKS\<close> disks.  The rebuild operations are the calls of \<^verbatim>\<open>put_raid_cache\<close>:
  every such call made by \<^verbatim>\<open>raid_disk_signal\<close> puts a block of a disk whose FORMAT
  request was made, and answered with status bit 0, earlier in the same call.
\<close>

theorem signal_segments:
  "raid_disk_signal E s = Some (rc, s') \<Longrightarrow>
     (\<exists>segs. new_log s s' = concat segs \<and> length segs \<le> RAID_DISKS \<and>
       (rc = 0 \<longrightarrow> length segs = RAID_DISKS) \<and>
       (\<forall>d<length segs. disk_segment E (of_nat d) (segs ! d))) \<and>
     list_all (formatted_before E (bus_log s') (length (bus_log s))) (new_puts s s')"
proof -
  assume a: "raid_disk_signal E s = Some (rc, s')"
  then have b: "signal_disks E 0 RAID_DISKS (uninit_buffer E) s = Some (rc, s')"
    by (auto simp: raid_disk_signal_def split: if_splits)
  from signal_disks_log[OF b] have 1: "\<exists>segs. new_log s s' = concat segs \<and> length segs \<le> RAID_DISKS \<and>
       (rc = 0 \<longrightarrow> length segs = RAID_DISKS) \<and>
       (\<forall>d<length segs. disk_segment E (of_nat d) (segs ! d))"
    by (auto simp: new_log_def)
  from signal_disks_puts[OF b] have 2:
    "list_all (formatted_before E (bus_log s') (length (bus_log s))) (new_puts s s')"
    by (auto simp: new_puts_def)
  from 1 2 show ?thesis by blast
qed

lemma failed_disk_echoes: "echoes_setup failed_disk_env"
  by (auto simp: echoes_setup_def failed_disk_env_def decode_generate_plain Let_def)

theorem signal_segments_witness:
  "\<exists>s0 s1 s2 segs.
     tagline_driver_init failed_disk_env 1 (initial_state ()) = Some (0, s0) \<and>
     tagline_write failed_disk_env 0 0 1 (\<lambda>_. [1]) s0 = Some (0, s1) \<and>
     raid_disk_signal failed_disk_env s1 = Some (0, s2) \<and>
     new_log s1 s2 = concat segs \<and> length segs = RAID_DISKS \<and>
     disk_segment failed_disk_env 0 (segs ! 0) \<and> disk_segment failed_disk_env 1 (segs ! 1) \<and>
     map put_addr (new_puts s1 s2) = [(0, 0)] \<and>
     formatted_before failed_disk_env (bus_log s2) (length (bus_log s1)) (hd (new_puts s1 s2))"
proof -
  obtain s0 where i: "tagline_driver_init failed_disk_env 1 (initial_state ()) = Some (0, s0)"
    using tagline_driver_init_accept[OF failed_disk_echoes] by blast
  from unit_init_state[OF i] obtain l0 where s0: "s0 = (initial_state ())\<lparr>max_cache_size := 8192,
      head_tag := [\<lparr>tagline = 0, max_start_allowed = 0, blocks_in_tagline = 0, block_0 = []\<rparr>],
      taglines_in_use := 1, containers := True, bus_log := l0\<rparr>"
    by (auto simp: failed_disk_env_def)
  have "\<exists>s1 s2. tagline_write failed_disk_env 0 0 1 (\<lambda>_. [1]) s0 = Some (0, s1) \<and>
      raid_disk_signal failed_disk_env s1 = Some (0, s2) \<and>
      map put_addr (new_puts s1 s2) = [(0, 0)]"
    unfolding s0
    by (simp add: initial_state_def failed_disk_env_def cache_defs driver_defs Let_def
        decode_generate_plain raid_disk_signal_def signal_disks_numeral signal_disk_def
        recover_block_def recover_from_def new_puts_def put_addr_def)
  then obtain s1 s2 where w: "tagline_write failed_disk_env 0 0 1 (\<lambda>_. [1]) s0 = Some (0, s1)"
    and g: "raid_disk_signal failed_disk_env s1 = Some (0, s2)"
    and p: "map put_addr (new_puts s1 s2) = [(0, 0)]"
    by (elim exE conjE)
  from signal_segments[OF g] obtain segs where
    c: "new_log s1 s2 = concat segs" and n: "length segs = RAID_DISKS" and
    a: "\<forall>d<length segs. disk_segment failed_disk_env (of_nat d) (segs ! d)" and
    f: "list_all (formatted_before failed_disk_env (bus_log s2) (length (bus_log s1)))
          (new_puts s1 s2)"
    by auto
  from a[rule_format, of 0] n have d0: "disk_segment failed_disk_env 0 (segs ! 0)"
    by (simp add: RAID_DISKS_def)
  from a[rule_format, of 1] n have d1: "disk_segment failed_disk_env 1 (segs ! 1)"
    by (simp add: RAID_DISKS_def)
  from p have "new_puts s1 s2 \<noteq> []" by auto
  with f have h: "formatted_before failed_disk_env (bus_log s2) (length (bus_log s1))
      (hd (new_puts s1 s2))"
    by (cases "new_puts s1 s2") simp_all
  from i w g c n d0 d1 p h show ?thesis
    by (intro exI[of _ s0] exI[of _ s1] exI[of _ s2] exI[of _ segs] conjI)
qed

theorem signal_segments_counterexample:
  "\<exists>s0 s1 s2.
     tagline_driver_init failed_disk_env 1 (initial_state ()) = Some (0, s0) \<and>
     tagline_write failed_disk_env 0 0 1 (\<lambda>_. [1]) s0 = Some (0, s1) \<and>
     raid_disk_signal failed_disk_env s1 = Some (0, s2) \<and>
     map fst (new_log s1 s2) =
       [status_request failed_disk_env 0, format_request failed_disk_env 0,
        status_request failed_disk_env 1, status_request failed_disk_env 2,
        status_request failed_disk_env 3, status_request failed_disk_env 4,
        status_request failed_disk_env 5, status_request failed_disk_env 6,
        status_request failed_disk_env 7, status_request failed_disk_env 8]"
proof -
  obtain s0 where i: "tagline_driver_init failed_disk_env 1 (initial_state ()) = Some (0, s0)"
    using tagline_driver_init_accept[OF failed_disk_echoes] by blast
  from unit_init_state[OF i] obtain l0 where s0: "s0 = (initial_state ())\<lparr>max_cache_size := 8192,
      head_tag := [\<lparr>tagline = 0, max_start_allowed = 0, blocks_in_tagline = 0, block_0 = []\<rparr>],
      taglines_in_use := 1, containers := True, bus_log := l0\<rparr>"
    by (auto simp: failed_disk_env_def)
  have "\<exists>s1 s2. tagline_write failed_disk_env 0 0 1 (\<lambda>_. [1]) s0 = Some (0, s1) \<and>
      raid_disk_signal failed_disk_env s1 = Some (0, s2) \<and>
      map fst (new_log s1 s2) =
       [status_request failed_disk_env 0, format_request failed_disk_env 0,
        status_request failed_disk_env 1, status_request failed_disk_env 2,
        status_request failed_disk_env 3, status_request failed_disk_env 4,
        status_request failed_disk_env 5, status_request failed_disk_env 6,
        status_request failed_disk_env 7, status_request failed_disk_env 8]"
    unfolding s0
    by (simp add: initial_state_def failed_disk_env_def cache_defs driver_defs Let_def
        decode_generate_plain raid_disk_signal_def signal_disks_numeral signal_disk_def
        recover_block_def recover_from_def new_log_def status_request_def format_request_def)
  then obtain s1 s2 where
    "tagline_write failed_disk_env 0 0 1 (\<lambda>_. [1]) s0 = Some (0, s1)"
    "raid_disk_signal failed_disk_env s1 = Some (0, s2)"
    "map fst (new_log s1 s2) =
       [status_request failed_disk_env 0, format_request failed_disk_env 0,
        status_request failed_disk_env 1, status_request failed_disk_env 2,
        status_request failed_disk_env 3, status_request failed_disk_env 4,
        status_request failed_disk_env 5, status_request failed_disk_env 6,
        status_request failed_disk_env 7, status_request failed_disk_env 8]"
    by (elim exE conjE)
  with i show ?thesis
    by (intro exI[of _ s0] exI[of _ s1] exI[of _ s2] conjI)
qed

section \<open>The order of eviction\<close>

text \<open>
  C9.  A cache of two blocks: \<^verbatim>\<open>put\<close> of block A, \<^verbatim>\<open>put\<close> of block B, \<^verbatim>\<open>get\<close> of A
  (a hit), \<^verbatim>\<open>put\<close> of block C.  The last \<^verbatim>\<open>put\<close> writes A to the bus and frees it,
  although A was read after B was written: \<^verbatim>\<open>get_raid_cache\<close> does not move the block it
  returns to the back of the queue.  Afterwards A misses and B hits; the queue holds two
  blocks.
\<close>

theorem eviction_ignores_get:
  "\<exists>s1 s2 s3 s4 s5 s6.
     put_raid_cache (echo_env 2) 0 0 [1] (snd (init_raid_cache 2 (initial_state ()))) = Some (0, s1) \<and>
     put_raid_cache (echo_env 2) 1 0 [2] s1 = Some (0, s2) \<and>
     get_raid_cache 0 0 s2 = Some (Some [1], s3) \<and>
     put_raid_cache (echo_env 2) 2 0 [3] s3 = Some (0, s4) \<and>
     map fst (new_log s3 s4) =
       [generate_RAIDOpCode \<lparr> request_type = RAID_WRITE (echo_env 2), number_of_blocks = 1,
          disk_number = 0, reserved = 0, status = 0, blockid = 0 \<rparr>] \<and>
     capacity s4 = 2 \<and>
     get_raid_cache 0 0 s4 = Some (None, s5) \<and>
     get_raid_cache 1 0 s5 = Some (Some [2], s6)"
  by (simp add: init_raid_cache_def initial_state_def echo_env_def cache_defs Let_def
      decode_generate_plain new_log_def)

text \<open>
  The same with \<^verbatim>\<open>put\<close> alone: a second \<^verbatim>\<open>put\<close> of the only block of the queue takes
  the first case of \<^verbatim>\<open>update_block_in_queue\<close> and links the node to itself; after a
  \<^verbatim>\<open>put\<close> of B and a third \<^verbatim>\<open>put\<close> of A the node of A is at the back and still at the
  front of the queue, and the \<^verbatim>\<open>put\<close> of C evicts it.
\<close>

lemma eviction_after_repeated_put:
  "\<exists>s1 s2 s3 s4 s5 s6 s7.
     put_raid_cache (echo_env 2) 0 0 [1] (snd (init_raid_cache 2 (initial_state ()))) = Some (0, s1) \<and>
     put_raid_cache (echo_env 2) 0 0 [1] s1 = Some (0, s2) \<and>
     put_raid_cache (echo_env 2) 1 0 [2] s2 = Some (0, s3) \<and>
     put_raid_cache (echo_env 2) 0 0 [4] s3 = Some (0, s4) \<and>
     put_raid_cache (echo_env 2) 2 0 [3] s4 = Some (0, s5) \<and>
     map fst (new_log s4 s5) =
       [generate_RAIDOpCode \<lparr> request_type = RAID_WRITE (echo_env 2), number_of_blocks = 1,
          disk_number = 0, reserved = 0, status = 0, blockid = 0 \<rparr>] \<and>
     get_raid_cache 0 0 s5 = Some (None, s6) \<and>
     get_raid_cache 1 0 s6 = Some (Some [2], s7)"
  by (simp add: init_raid_cache_def initial_state_def echo_env_def cache_defs Let_def
      decode_generate_plain new_log_def)

text \<open>
  With \<^verbatim>\<open>TAGLINE_CACHE_SIZE\<close> 1 the cache holds two blocks: the first two insertions
  into empty buckets do not go through \<^verbatim>\<open>insert_in_queue\<close>, where the size is tested.
\<close>

lemma two_blocks_in_cache_of_one:
  "\<exists>s1 s2 s3 s4.
     put_raid_cache (echo_env 1) 0 0 [1] (snd (init_raid_cache 1 (initial_state ()))) = Some (0, s1) \<and>
     put_raid_cache (echo_env 1) 1 0 [2] s1 = Some (0, s2) \<and>
     capacity s2 = 2 \<and>
     get_raid_cache 0 0 s2 = Some (Some [1], s3) \<and>
     get_raid_cache 1 0 s3 = Some (Some [2], s4)"
  by (simp add: init_raid_cache_def initial_state_def echo_env_def cache_defs Let_def
      decode_generate_plain new_log_def)

section \<open>A block node whose backup was never assigned\<close>

lemma format_disks_numeral:
  "format_disks E dsk (numeral k) s =
     (let format = \<lparr> request_type = RAID_FORMAT E, number_of_blocks = 0,
                     disk_number = of_nat dsk, reserved = 0, status = 0, blockid = 0 \<rparr>
      in case client_raid_bus_request E (generate_RAIDOpCode format) None s of
           (format_opcode_response, _, s1) \<Rightarrow>
             if check_response format (decode_RAIDOpCode format_opcode_response) \<noteq> 0
             then (-1, s1)
             else format_disks E (Suc dsk) (pred_numeral k) s1)"
  by (simp add: numeral_eq_Suc)

lemma write_loop_numeral:
  "write_loop E tag bnum (numeral k) i buf s = do {
     (rc, s1) \<leftarrow> tagline_write1 E tag (bnum + of_nat i) (buf i) s;
     if rc \<noteq> 0 then Some (-1, s1) else write_loop E tag bnum (pred_numeral k) (Suc i) buf s1
   }"
  by (simp add: numeral_eq_Suc)

lemma smod_pos: "0 \<le> a \<Longrightarrow> 0 < b \<Longrightarrow> a smod b = a mod (b::int)"
  by (simp add: smod_int_alt_def sgn_if)

lemma decode_generate_status:
  "reserved r = 0 \<Longrightarrow> status r = 1 \<Longrightarrow> decode_RAIDOpCode (generate_RAIDOpCode r) = r"
  by (rule decode_generate_six_bits) simp_all

text \<open>The state after \<^verbatim>\<open>tagline_driver_init(1)\<close> with the server of \<open>glitch_env\<close>.\<close>

lemma init_glitch:
  "\<exists>l. tagline_driver_init glitch_env 1 (initial_state False) =
     Some (0, (initial_state False)\<lparr>max_cache_size := 2,
      head_tag := [\<lparr>tagline = 0, max_start_allowed = 0, blocks_in_tagline = 0, block_0 = []\<rparr>],
      taglines_in_use := 1, containers := True, bus_log := l\<rparr>)"
  by (simp add: tagline_driver_init_def init_raid_cache_def Let_def glitch_env_def
      client_raid_bus_request_def decode_generate_plain check_response_def RAID_DISKS_def
      RAID_DISKBLOCKS_def initial_state_def add_new_tag_def format_disks_numeral)

lemmas glitch_run = initial_state_def glitch_env_def cache_defs driver_defs Let_def
  decode_generate_plain decode_generate_status write_loop_numeral smod_pos

text \<open>
  C4.  After \<^verbatim>\<open>tagline_driver_init(1)\<close>, a write of the ten blocks 0..9 of tagline 0
  with a cache of two blocks.  The primary of block 9 is block 2 of disk 0.  The
  insertion of its backup evicts block 1 of disk 8, the server rejects that WRITE, and
  \<^verbatim>\<open>tagline_write\<close> returns -1 after it has linked the node of block 9 into the
  tagline and before it has assigned the node's backup fields.  With zeroed memory the
  node records the backup on disk 0, the disk of its primary.  The next write of block 9
  returns 0 and puts the block under primary and backup address as recorded: block 2 of
  disk 0, and block 0 of disk 0.
\<close>

theorem half_written_node:
  "\<exists>s0 s1 s2.
     tagline_driver_init glitch_env 1 (initial_state False) = Some (0, s0) \<and>
     tagline_write glitch_env 0 0 10 (\<lambda>i. [1]) s0 = Some (-1, s1) \<and>
     block_0 (hd (head_tag s1)) ! 9 =
       \<lparr>block = 9, RAID_disk = 0, RAID_block = 2, backup_disk = 0, backup_block = 0\<rparr> \<and>
     \<not> mirror_disjoint (head_tag s1) \<and>
     tagline_write glitch_env 0 9 1 (\<lambda>i. [9]) s1 = Some (0, s2) \<and>
     map put_addr (new_puts s1 s2) = [(0, 2), (0, 0)]"
proof -
  from init_glitch obtain l where
    i: "tagline_driver_init glitch_env 1 (initial_state False) =
     Some (0, (initial_state False)\<lparr>max_cache_size := 2,
      head_tag := [\<lparr>tagline = 0, max_start_allowed = 0, blocks_in_tagline = 0, block_0 = []\<rparr>],
      taglines_in_use := 1, containers := True, bus_log := l\<rparr>)"
    by blast
  show ?thesis
    unfolding i
    by (simp add: glitch_run mirror_disjoint_def block_disjoint_def new_puts_def put_addr_def)
qed

text \<open>
  C1.  The same run, then a write of block 0 with the data 7, which returns 0, a write
  of block 9 with the data 9, which returns 0, and a read of block 0: it returns 0 and
  delivers the data 9.  The backup address in the node of block 9 is the primary address
  of block 0, so the write of block 9 has replaced the cached block 0.
\<close>

theorem read_after_other_write:
  "\<exists>s0 s1 s2 s3 buf' s4.
     tagline_driver_init glitch_env 1 (initial_state False) = Some (0, s0) \<and>
     tagline_write glitch_env 0 0 10 (\<lambda>i. [1]) s0 = Some (-1, s1) \<and>
     tagline_write glitch_env 0 0 1 (\<lambda>i. [7]) s1 = Some (0, s2) \<and>
     tagline_write glitch_env 0 9 1 (\<lambda>i. [9]) s2 = Some (0, s3) \<and>
     tagline_read glitch_env 0 0 1 (\<lambda>i. []) s3 = Some (0, buf', s4) \<and>
     buf' 0 = [9]"
proof -
  from init_glitch obtain l where
    i: "tagline_driver_init glitch_env 1 (initial_state False) =
     Some (0, (initial_state False)\<lparr>max_cache_size := 2,
      head_tag := [\<lparr>tagline = 0, max_start_allowed = 0, blocks_in_tagline = 0, block_0 = []\<rparr>],
      taglines_in_use := 1, containers := True, bus_log := l\<rparr>)"
    by blast
  show ?thesis
    unfolding i
    by (simp add: glitch_run)
qed

text \<open>
  C2.  The same run, then a write of block 9 with the data 9 and a write of block 0 with
  the data 7, both returning 0, and \<^verbatim>\<open>raid_disk_signal\<close>, to which the server reports
  disk 0 as failed.  The primary of block 9 is on disk 0.  The recovery returns 0; it
  has rebuilt the primary of block 9 from the address in the node's backup fields, which
  holds block 0.  The read of block 9 then returns 0 and delivers the data 7, not the
  data 9 last written to it.
\<close>

theorem read_after_recovery:
  "\<exists>s0 s1 s2 s3 s4 buf' s5.
     tagline_driver_init glitch_env 1 (initial_state False) = Some (0, s0) \<and>
     tagline_write glitch_env 0 0 10 (\<lambda>i. [1]) s0 = Some (-1, s1) \<and>
     tagline_write glitch_env 0 9 1 (\<lambda>i. [9]) s1 = Some (0, s2) \<and>
     tagline_write glitch_env 0 0 1 (\<lambda>i. [7]) s2 = Some (0, s3) \<and>
     RAID_disk (block_0 (hd (head_tag s3)) ! 9) = 0 \<and>
     raid_disk_signal glitch_env s3 = Some (0, s4) \<and>
     fst (hd (new_log s3 s4)) = status_request glitch_env 0 \<and>
     blockid (decode_RAIDOpCode (snd (hd (new_log s3 s4)))) = 2 \<and>
     tagline_read glitch_env 0 9 1 (\<lambda>i. []) s4 = Some (0, buf', s5) \<and>
     buf' 0 = [7]"
proof -
  from init_glitch obtain l where
    i: "tagline_driver_init glitch_env 1 (initial_state False) =
     Some (0, (initial_state False)\<lparr>max_cache_size := 2,
      head_tag := [\<lparr>tagline = 0, max_start_allowed = 0, blocks_in_tagline = 0, block_0 = []\<rparr>],
      taglines_in_use := 1, containers := True, bus_log := l\<rparr>)"
    by blast
  show ?thesis
    unfolding i
    by (simp add: glitch_run raid_disk_signal_def signal_disks_numeral signal_disk_def
        recover_block_def recover_from_def new_log_def status_request_def)
qed

end
